theory Spec2Isabelle
  imports Main
begin

section \<open>JavaScript values shared by the handlers\<close>

text \<open>
  Strings are lists of 8-bit characters: the model covers JavaScript strings whose
  UTF-16 code units are below 256. A thrown value is an \<open>Error\<close> object with its
  \<open>message\<close>; everything the runtime and axios throw is of that shape.
\<close>

datatype js_error = JsError (error_message: string)

text \<open>\<open>error.message || 'Unknown error'\<close>: the empty string is falsy.\<close>

definition message_or :: "js_error \<Rightarrow> string \<Rightarrow> string" where
  "message_or e d = (if error_message e = [] then d else error_message e)"

section \<open>The session registry of the HTTP/SSE server (http-server.ts)\<close>

subsection \<open>\<open>const connections = new Map()\<close>\<close>

text \<open>
  A JavaScript \<open>Map\<close> iterates in insertion order, \<open>set\<close> on a key that is
  present replaces the value where the key stands, and \<open>delete\<close> drops the entry.
  The registry is the list of its entries in iteration order. A transport object is
  identified by the number of the \<open>new SSEServerTransport\<close> that created it.
\<close>

type_synonym ('k, 'v) js_map = "('k \<times> 'v) list"

definition Map_has :: "'k \<Rightarrow> ('k, 'v) js_map \<Rightarrow> bool" where
  "Map_has k m = (map_of m k \<noteq> None)"

definition Map_get :: "'k \<Rightarrow> ('k, 'v) js_map \<Rightarrow> 'v option" where
  "Map_get k m = map_of m k"

primrec Map_set :: "'k \<Rightarrow> 'v \<Rightarrow> ('k, 'v) js_map \<Rightarrow> ('k, 'v) js_map" where
  "Map_set k v [] = [(k, v)]"
| "Map_set k v (p # ps) = (if fst p = k then (k, v) # ps else p # Map_set k v ps)"

definition Map_delete :: "'k \<Rightarrow> ('k, 'v) js_map \<Rightarrow> ('k, 'v) js_map" where
  "Map_delete k m = filter (\<lambda>p. fst p \<noteq> k) m"

definition Map_size :: "('k, 'v) js_map \<Rightarrow> nat" where
  "Map_size m = length m"

text \<open>\<open>connections.values().next().value\<close>: \<open>undefined\<close> on an empty map.\<close>

definition Map_first_value :: "('k, 'v) js_map \<Rightarrow> 'v option" where
  "Map_first_value m = (case m of [] \<Rightarrow> None | p # _ \<Rightarrow> Some (snd p))"

record server_state =
  connections :: "(string, nat) js_map"
  next_transport :: nat

definition initial_state :: server_state where
  "initial_state = \<lparr>connections = [], next_transport = 0\<rparr>"

subsection \<open>\<open>app.get("/sse", ...)\<close>: opening a session\<close>

text \<open>
  The request carries \<open>req.query.sessionId\<close> and the two strings the handler would
  generate, \<open>Math.random().toString(36).substring(2, 15)\<close> and
  \<open>Date.now().toString(36)\<close>. What the SDK does is the outcome: the constructor of
  the transport throws, or \<open>server.connect\<close> rejects, or the server is connected; the
  flag of a failure is \<open>res.headersSent\<close> when the \<open>catch\<close> block runs.
\<close>

record sse_request =
  query_sessionId :: "string option"
  random_part :: string
  time_part :: string

datatype sse_outcome =
  ConstructorThrows js_error bool
| ConnectThrows js_error bool
| Connected

datatype http_reply =
  End nat string
| Json_error nat string

definition sessionId_of :: "sse_request \<Rightarrow> string" where
  "sessionId_of req =
     (case query_sessionId req of
        Some s \<Rightarrow> if s \<noteq> [] then s else random_part req @ ''-'' @ time_part req
      | None \<Rightarrow> random_part req @ ''-'' @ time_part req)"

definition sse_failure_reply :: "js_error \<Rightarrow> bool \<Rightarrow> http_reply option" where
  "sse_failure_reply e headersSent =
     (if \<not> headersSent then Some (End 500 (''Server error: '' @ message_or e ''Unknown error''))
      else None)"

definition openSession ::
  "server_state \<Rightarrow> sse_request \<Rightarrow> sse_outcome \<Rightarrow> server_state \<times> http_reply option" where
  "openSession st req outcome =
     (let sessionId = sessionId_of req in
      case outcome of
        ConstructorThrows e headersSent \<Rightarrow> (st, sse_failure_reply e headersSent)
      | ConnectThrows e headersSent \<Rightarrow>
          (let transport = next_transport st in
           (st\<lparr>connections := Map_set sessionId transport (connections st),
               next_transport := Suc transport\<rparr>,
            sse_failure_reply e headersSent))
      | Connected \<Rightarrow>
          (let transport = next_transport st in
           (st\<lparr>connections := Map_set sessionId transport (connections st),
               next_transport := Suc transport\<rparr>,
            None)))"

subsection \<open>\<open>req.on("close", ...)\<close>: closing a session\<close>

definition closeSession :: "string \<Rightarrow> server_state \<Rightarrow> server_state" where
  "closeSession sessionId st =
     (if Map_has sessionId (connections st)
      then st\<lparr>connections := Map_delete sessionId (connections st)\<rparr>
      else st)"

subsection \<open>\<open>app.post("/messages", ...)\<close>: routing a message\<close>

text \<open>
  \<open>transport.handlePostMessage\<close> belongs to the SDK: it answers the POST itself, or
  it throws, and then the flag is \<open>res.headersSent\<close> when the \<open>catch\<close> block runs.
  The result records the transport the body was handed to and what the handler itself
  answered.
\<close>

datatype post_outcome =
  Handled
| HandlerThrows js_error bool

record route_result =
  forwarded_to :: "nat option"
  reply :: "http_reply option"

definition post_failure_reply :: "js_error \<Rightarrow> bool \<Rightarrow> http_reply option" where
  "post_failure_reply e headersSent =
     (if \<not> headersSent
      then Some (Json_error 500 (''Internal server error: '' @ message_or e ''Unknown error''))
      else None)"

text \<open>
  \<open>await transport.handlePostMessage(req, res, req.body)\<close> inside the \<open>try\<close>; on
  \<open>undefined\<close> the call is a TypeError, which the same \<open>catch\<close> answers.
\<close>

definition handlePostMessage :: "nat option \<Rightarrow> post_outcome \<Rightarrow> route_result" where
  "handlePostMessage transport outcome =
     (case transport of
        None \<Rightarrow>
          \<lparr>forwarded_to = None,
           reply = post_failure_reply
             (JsError ''Cannot read properties of undefined (reading 'handlePostMessage')'') False\<rparr>
      | Some t \<Rightarrow>
          (case outcome of
             Handled \<Rightarrow> \<lparr>forwarded_to = Some t, reply = None\<rparr>
           | HandlerThrows e headersSent \<Rightarrow>
               \<lparr>forwarded_to = Some t, reply = post_failure_reply e headersSent\<rparr>))"

definition first_connection :: "server_state \<Rightarrow> post_outcome \<Rightarrow> route_result" where
  "first_connection st outcome =
     (if Map_size (connections st) = 0
      then \<lparr>forwarded_to = None, reply = Some (Json_error 400 ''No active connections'')\<rparr>
      else handlePostMessage (Map_first_value (connections st)) outcome)"

definition routeMessage ::
  "server_state \<Rightarrow> string option \<Rightarrow> post_outcome \<Rightarrow> server_state \<times> route_result" where
  "routeMessage st sessionId outcome =
     (case sessionId of
        None \<Rightarrow> (st, first_connection st outcome)
      | Some s \<Rightarrow>
          if s = [] \<or> \<not> Map_has s (connections st)
          then (st, first_connection st outcome)
          else (st, handlePostMessage (Map_get s (connections st)) outcome))"

subsection \<open>Runs of the server\<close>

datatype event =
  Open sse_request sse_outcome
| Close string
| Post "string option" post_outcome

fun step :: "server_state \<Rightarrow> event \<Rightarrow> server_state" where
  "step st (Open req outcome) = fst (openSession st req outcome)"
| "step st (Close sessionId) = closeSession sessionId st"
| "step st (Post sessionId outcome) = fst (routeMessage st sessionId outcome)"

definition run :: "server_state \<Rightarrow> event list \<Rightarrow> server_state" where
  "run st evs = foldl step st evs"

inductive reachable :: "server_state \<Rightarrow> bool" where
  reachable_init: "reachable initial_state"
| reachable_step: "reachable st \<Longrightarrow> reachable (step st ev)"

subsection \<open>The invariant of the registry and example states\<close>

text \<open>
  Keys are distinct and never empty, every registered transport was created before, and
  no transport is registered under two keys.
\<close>

definition registry_inv :: "server_state \<Rightarrow> bool" where
  "registry_inv st =
     (distinct (map fst (connections st)) \<and> distinct (map snd (connections st)) \<and>
      (\<forall>p \<in> set (connections st). snd p < next_transport st \<and> fst p \<noteq> []))"

definition example_request :: "string option \<Rightarrow> sse_request" where
  "example_request s = \<lparr>query_sessionId = s, random_part = ''k3x9q'', time_part = ''lq2z''\<rparr>"

definition two_sessions :: server_state where
  "two_sessions =
     run initial_state [Open (example_request (Some ''a'')) Connected,
                        Open (example_request (Some ''b'')) Connected]"

text \<open>The transport \<open>t\<close> was created and is registered no more.\<close>

definition gone :: "nat \<Rightarrow> server_state \<Rightarrow> bool" where
  "gone t st = (registry_inv st \<and> t \<notin> snd ` set (connections st) \<and> t < next_transport st)"

definition one_session :: server_state where
  "one_session = run initial_state [Open (example_request None) Connected]"

text \<open>
  The events that write the entry of an identifier: an opening with it and its close
  event.
\<close>

fun touches :: "string \<Rightarrow> event \<Rightarrow> bool" where
  "touches sessionId (Open req outcome) = (sessionId_of req = sessionId)"
| "touches sessionId (Close k) = (k = sessionId)"
| "touches sessionId (Post k outcome) = False"

section \<open>The tool handlers of the MCP server (mcp-server.ts, test-tools.ts)\<close>

subsection \<open>Strings\<close>

text \<open>\<open>String.prototype.includes\<close>: the argument occurs somewhere in the string.\<close>

primrec String_includes :: "string \<Rightarrow> string \<Rightarrow> bool" where
  "String_includes [] sub = (sub = [])"
| "String_includes (c # cs) sub = (take (length sub) (c # cs) = sub \<or> String_includes cs sub)"

text \<open>
  White space and line terminators of JavaScript among the characters below 256: TAB,
  LF, VT, FF, CR, SP and NBSP. They are what \<open>trim\<close> strips and what \<open>\s\<close> matches.
\<close>

definition is_space :: "char \<Rightarrow> bool" where
  "is_space c = (c \<in> {CHR 0x09, CHR 0x0A, CHR 0x0B, CHR 0x0C, CHR 0x0D, CHR 0x20, CHR 0xA0})"

definition String_trim :: "string \<Rightarrow> string" where
  "String_trim s = rev (dropWhile is_space (rev (dropWhile is_space s)))"

text \<open>\<open>s.split(',')\<close>: an empty string gives one empty piece.\<close>

primrec String_split :: "char \<Rightarrow> string \<Rightarrow> string list" where
  "String_split sep [] = [[]]"
| "String_split sep (c # cs) =
     (if c = sep then [] # String_split sep cs
      else (case String_split sep cs of [] \<Rightarrow> [[c]] | p # ps \<Rightarrow> (c # p) # ps))"

text \<open>\<open>parts.join(sep)\<close>.\<close>

fun Array_join :: "string \<Rightarrow> string list \<Rightarrow> string" where
  "Array_join sep [] = []"
| "Array_join sep [p] = p"
| "Array_join sep (p # q # ps) = p @ sep @ Array_join sep (q # ps)"

text \<open>
  A value that is a string or \<open>undefined\<close> is a \<open>string option\<close>. It is truthy
  when it is a non-empty string; in a template literal \<open>undefined\<close> prints as such.
\<close>

definition truthy :: "string option \<Rightarrow> bool" where
  "truthy v = (case v of None \<Rightarrow> False | Some s \<Rightarrow> s \<noteq> [])"

definition js_or :: "string option \<Rightarrow> string option \<Rightarrow> string option" where
  "js_or a b = (if truthy a then a else b)"

definition to_string :: "string option \<Rightarrow> string" where
  "to_string v = (case v of None \<Rightarrow> ''undefined'' | Some s \<Rightarrow> s)"

subsection \<open>Responses, configuration and the search platform\<close>

datatype content_block = TextBlock (block_text: string)

record tool_response =
  content :: "content_block list"
  isError :: "bool option"

definition text_response :: "string \<Rightarrow> tool_response" where
  "text_response t = \<lparr>content = [TextBlock t], isError = None\<rparr>"

definition error_response :: "string \<Rightarrow> tool_response" where
  "error_response t = \<lparr>content = [TextBlock t], isError = Some True\<rparr>"

text \<open>
  \<open>process.env\<close> is a map from names to strings. \<open>sgUrl\<close> and \<open>sgToken\<close> are read
  once, when the module is loaded; the handlers read \<open>process.env\<close> again when they run.
\<close>

type_synonym env = "string \<rightharpoonup> string"

record module_config =
  sgUrl :: "string option"
  sgToken :: "string option"

definition load_module :: "env \<Rightarrow> module_config" where
  "load_module e = \<lparr>sgUrl = e ''SOURCEGRAPH_URL'', sgToken = e ''SOURCEGRAPH_TOKEN''\<rparr>"

datatype search_type = File | Commit | Diff

definition type_name :: "search_type \<Rightarrow> string" where
  "type_name t = (case t of File \<Rightarrow> ''file'' | Commit \<Rightarrow> ''commit'' | Diff \<Rightarrow> ''diff'')"

text \<open>
  The GraphQL documents are constants of the code (\<open>getFileSearchQuery()\<close> and the
  others); the model names them. A request is what \<open>axios.post\<close> is given: the
  address, the token of the \<open>Authorization\<close> header, the document and the variable
  \<open>query\<close> (absent in the connection test).
\<close>

datatype graphql_document = FileSearch | CommitSearch | DiffSearch | CurrentUser

record sg_request =
  address :: string
  token :: string
  document :: graphql_document
  variables_query :: "string option"

text \<open>
  What lies outside the repository is a parameter: \<open>axios_post\<close> resolves with the
  body of the response or rejects; \<open>errors_of\<close> reads the field \<open>errors\<close> of a body
  (a TypeError on \<open>null\<close>, \<open>None\<close> when the field is falsy); \<open>results_of\<close> reads
  \<open>data.search.results\<close> (a TypeError when a step is missing, \<open>None\<close> for
  \<open>undefined\<close>); \<open>username_of\<close> reads \<open>data?.currentUser?.username\<close>;
  \<open>formatSearchResults\<close> is the formatter of utils/formatter.ts, given the results,
  the query and the type, and may throw on a shape it does not expect.
\<close>

record 'j world =
  axios_post :: "sg_request \<Rightarrow> js_error + 'j"
  errors_of :: "'j \<Rightarrow> js_error + 'j option"
  results_of :: "'j \<Rightarrow> js_error + 'j option"
  username_of :: "'j \<Rightarrow> string option"
  JSON_stringify :: "'j \<Rightarrow> string"
  formatSearchResults :: "'j option \<Rightarrow> string option \<Rightarrow> string \<Rightarrow> js_error + string"

text \<open>
  A handler returns the requests it sent to the search platform, in order, and either
  the response it resolves to (\<open>Inr\<close>) or the error it lets escape (\<open>Inl\<close>).
\<close>

type_synonym handler_result = "sg_request list \<times> (js_error + tool_response)"

definition config_error_text :: string where
  "config_error_text = ''Error: Sourcegraph URL or token not configured. Please set SOURCEGRAPH_URL and SOURCEGRAPH_TOKEN environment variables.''"

text \<open>
  \<open>const effectiveUrl = sgUrl || process.env.SOURCEGRAPH_URL\<close>, the same for the
  token, and the guard \<open>!effectiveUrl || !effectiveToken\<close>: \<open>None\<close> when the guard
  fires.
\<close>

definition effective_credentials :: "module_config \<Rightarrow> env \<Rightarrow> (string \<times> string) option" where
  "effective_credentials m e =
     (let effectiveUrl = js_or (sgUrl m) (e ''SOURCEGRAPH_URL'');
          effectiveToken = js_or (sgToken m) (e ''SOURCEGRAPH_TOKEN'')
      in if \<not> truthy effectiveUrl \<or> \<not> truthy effectiveToken then None
         else Some (to_string effectiveUrl, to_string effectiveToken))"

definition graphql_request :: "string \<Rightarrow> graphql_document \<Rightarrow> string \<times> string \<Rightarrow> sg_request" where
  "graphql_request query graphqlQuery cfg =
     \<lparr>address = fst cfg @ ''/.api/graphql'', token = snd cfg,
      document = graphqlQuery, variables_query = Some query\<rparr>"

definition executeSourcegraphSearch ::
  "'j world \<Rightarrow> string \<Rightarrow> graphql_document \<Rightarrow> string \<times> string \<Rightarrow> js_error + 'j" where
  "executeSourcegraphSearch w query graphqlQuery cfg =
     axios_post w (graphql_request query graphqlQuery cfg)"

text \<open>
  The part of a search handler after the request, inside its \<open>try\<close>: the check of
  \<open>response.errors\<close>, the read of the results and the formatter.
\<close>

definition format_response ::
  "'j world \<Rightarrow> 'j \<Rightarrow> string option \<Rightarrow> string \<Rightarrow> js_error + tool_response" where
  "format_response w response query type =
     (case errors_of w response of
        Inl e \<Rightarrow> Inl e
      | Inr (Some errors) \<Rightarrow>
          Inr (error_response (''Sourcegraph API Error: '' @ JSON_stringify w errors))
      | Inr None \<Rightarrow>
          (case results_of w response of
             Inl e \<Rightarrow> Inl e
           | Inr results \<Rightarrow>
               (case formatSearchResults w results query type of
                  Inl e \<Rightarrow> Inl e
                | Inr formattedResults \<Rightarrow> Inr (text_response formattedResults))))"

text \<open>\<open>try { ... } catch (error) { return { ..., isError: true } }\<close> with the handler's prefix.\<close>

definition catch_as_response :: "string \<Rightarrow> js_error + tool_response \<Rightarrow> js_error + tool_response" where
  "catch_as_response prefix r =
     (case r of
        Inl error \<Rightarrow> Inr (error_response (prefix @ message_or error ''Unknown error''))
      | Inr v \<Rightarrow> Inr v)"

text \<open>
  The four search handlers share their body after the query is built: the request, then
  the response or the caught error.
\<close>

definition search_and_format ::
  "'j world \<Rightarrow> string \<Rightarrow> string \<Rightarrow> graphql_document \<Rightarrow> string \<Rightarrow> string \<times> string \<Rightarrow> handler_result" where
  "search_and_format w prefix finalQuery graphqlQuery type cfg =
     ([graphql_request finalQuery graphqlQuery cfg],
      catch_as_response prefix
        (case executeSourcegraphSearch w finalQuery graphqlQuery cfg of
           Inl e \<Rightarrow> Inl e
         | Inr response \<Rightarrow> format_response w response (Some finalQuery) type))"

definition search_document :: "search_type \<Rightarrow> graphql_document" where
  "search_document t = (case t of Commit \<Rightarrow> CommitSearch | Diff \<Rightarrow> DiffSearch | File \<Rightarrow> FileSearch)"

subsection \<open>The search tools\<close>

text \<open>search-code: the type and the count are added when the query has none.\<close>

definition search_code_finalQuery :: "string \<Rightarrow> search_type \<Rightarrow> string" where
  "search_code_finalQuery query type =
     (let finalQuery = (if String_includes query ''type:'' then query else query @ '' type:'' @ type_name type)
      in if String_includes finalQuery ''count:'' then finalQuery else finalQuery @ '' count:20'')"

definition search_code :: "'j world \<Rightarrow> module_config \<Rightarrow> env \<Rightarrow> string \<Rightarrow> search_type \<Rightarrow> handler_result" where
  "search_code w m e query type =
     (case effective_credentials m e of
        None \<Rightarrow> ([], Inr (error_response config_error_text))
      | Some cfg \<Rightarrow>
          search_and_format w ''Error searching Sourcegraph: ''
            (search_code_finalQuery query type) (search_document type) (type_name type) cfg)"

definition search_commits_finalQuery :: "string option \<Rightarrow> string option \<Rightarrow> string option \<Rightarrow> string" where
  "search_commits_finalQuery author message after =
     ''type:commit''
       @ (if truthy author then '' author:'' @ to_string author else [])
       @ (if truthy message then '' message:'' @ to_string message else [])
       @ (if truthy after then '' after:'' @ to_string after else [])
       @ '' count:20''"

definition search_commits ::
  "'j world \<Rightarrow> module_config \<Rightarrow> env \<Rightarrow> string option \<Rightarrow> string option \<Rightarrow> string option \<Rightarrow> handler_result" where
  "search_commits w m e author message after =
     (case effective_credentials m e of
        None \<Rightarrow> ([], Inr (error_response config_error_text))
      | Some cfg \<Rightarrow>
          search_and_format w ''Error searching Sourcegraph commits: ''
            (search_commits_finalQuery author message after) CommitSearch ''commit'' cfg)"

definition search_diffs_finalQuery :: "string option \<Rightarrow> string option \<Rightarrow> string option \<Rightarrow> string" where
  "search_diffs_finalQuery query author after =
     ''type:diff''
       @ (if truthy query then '' '' @ to_string query else [])
       @ (if truthy author then '' author:'' @ to_string author else [])
       @ (if truthy after then '' after:'' @ to_string after else [])
       @ '' count:20''"

definition search_diffs ::
  "'j world \<Rightarrow> module_config \<Rightarrow> env \<Rightarrow> string option \<Rightarrow> string option \<Rightarrow> string option \<Rightarrow> handler_result" where
  "search_diffs w m e query author after =
     (case effective_credentials m e of
        None \<Rightarrow> ([], Inr (error_response config_error_text))
      | Some cfg \<Rightarrow>
          search_and_format w ''Error searching Sourcegraph diffs: ''
            (search_diffs_finalQuery query author after) DiffSearch ''diff'' cfg)"

text \<open>The filter of one GitHub repository, \<open>repo:^github\.com/${repo}$\<close>.\<close>

definition github_repo_filter :: "string \<Rightarrow> string" where
  "github_repo_filter repo = ''repo:^github'' @ [CHR 0x5C] @ ''.com/'' @ repo @ ''$''"

definition search_github_repos_finalQuery :: "string \<Rightarrow> string \<Rightarrow> search_type \<Rightarrow> string" where
  "search_github_repos_finalQuery query repos type =
     (let repoList = map String_trim (String_split (CHR '','') repos);
          repoFilters = Array_join '' '' (map github_repo_filter repoList)
      in query @ '' '' @ repoFilters @ '' type:'' @ type_name type @ '' count:20'')"

definition search_github_repos ::
  "'j world \<Rightarrow> module_config \<Rightarrow> env \<Rightarrow> string \<Rightarrow> string \<Rightarrow> search_type \<Rightarrow> handler_result" where
  "search_github_repos w m e query repos type =
     (case effective_credentials m e of
        None \<Rightarrow> ([], Inr (error_response config_error_text))
      | Some cfg \<Rightarrow>
          search_and_format w ''Error searching GitHub repositories: ''
            (search_github_repos_finalQuery query repos type) (search_document type) (type_name type) cfg)"

subsection \<open>natural-search and services/natural-language.ts\<close>

text \<open>
  \<open>analyzeQuery\<close> is declared \<open>async\<close> and its two callers use what it returns
  without \<open>await\<close>: they read the properties \<open>type\<close>, \<open>query\<close>, \<open>author\<close>,
  \<open>after\<close> and \<open>repos\<close> off a Promise, which has none of them. The record holds
  what such reads give, \<open>None\<close> for \<open>undefined\<close>. The call still starts the
  analysis, which may contact the language-model provider; that is no request to the
  search platform and its result is dropped.
\<close>

record query_properties =
  p_type :: "string option"
  p_query :: "string option"
  p_author :: "string option"
  p_after :: "string option"
  p_repos :: "string list option"

definition promise_properties :: query_properties where
  "promise_properties =
     \<lparr>p_type = None, p_query = None, p_author = None, p_after = None, p_repos = None\<rparr>"

text \<open>A repository with a slash is taken for a GitHub repository.\<close>

definition repo_filter :: "string \<Rightarrow> string" where
  "repo_filter repo =
     (if String_includes repo ''/'' then github_repo_filter repo else ''repo:'' @ repo)"

text \<open>
  The body of \<open>naturalLanguageSearch\<close> after the destructuring
  \<open>{type = 'file', query, author, after, repos = []}\<close>, with its \<open>try\<close> and
  \<open>catch\<close>.
\<close>

definition search_with_properties ::
  "'j world \<Rightarrow> query_properties \<Rightarrow> string \<times> string \<Rightarrow> handler_result" where
  "search_with_properties w p cfg =
     (let type = (case p_type p of None \<Rightarrow> ''file'' | Some t \<Rightarrow> t);
          query = p_query p;
          author = p_author p;
          after = p_after p;
          repos = (case p_repos p of None \<Rightarrow> [] | Some rs \<Rightarrow> rs);
          searchQuery =
            to_string query @ '' type:'' @ type
            @ (if truthy author \<and> (type = ''commit'' \<or> type = ''diff'')
               then '' author:'' @ to_string author else [])
            @ (if truthy after \<and> (type = ''commit'' \<or> type = ''diff'')
               then '' after:'' @ to_string after else [])
            @ (if length repos > 0 then '' '' @ Array_join '' '' (map repo_filter repos) else [])
            @ '' count:20'';
          prefix = ''Error processing natural language search: ''
      in if type = ''file'' \<or> type = ''commit'' \<or> type = ''diff''
         then
           (let graphqlQuery =
                  (if type = ''file'' then FileSearch
                   else if type = ''commit'' then CommitSearch else DiffSearch)
            in ([graphql_request searchQuery graphqlQuery cfg],
                catch_as_response prefix
                  (case axios_post w (graphql_request searchQuery graphqlQuery cfg) of
                     Inl e \<Rightarrow> Inl e
                   | Inr response \<Rightarrow> format_response w response query type)))
         else ([], catch_as_response prefix (Inl (JsError (''Unsupported search type: '' @ type)))))"

definition naturalLanguageSearch :: "'j world \<Rightarrow> string \<Rightarrow> string \<times> string \<Rightarrow> handler_result" where
  "naturalLanguageSearch w naturalQuery sourcegraphConfig =
     search_with_properties w promise_properties sourcegraphConfig"

definition natural_search ::
  "'j world \<Rightarrow> module_config \<Rightarrow> env \<Rightarrow> string \<Rightarrow> 'n option \<Rightarrow> handler_result" where
  "natural_search w m e query max_results =
     (case effective_credentials m e of
        None \<Rightarrow> ([], Inr (error_response config_error_text))
      | Some cfg \<Rightarrow> naturalLanguageSearch w query cfg)"

text \<open>
  natural-search-debug (mcp-server-debug.ts): the same guard, a call of
  \<open>analyzeQuery\<close> whose result is only logged, then the same search.
\<close>

definition natural_search_debug ::
  "'j world \<Rightarrow> module_config \<Rightarrow> env \<Rightarrow> string \<Rightarrow> 'n option \<Rightarrow> handler_result" where
  "natural_search_debug w m e query max_results =
     (case effective_credentials m e of
        None \<Rightarrow> ([], Inr (error_response config_error_text))
      | Some cfg \<Rightarrow> naturalLanguageSearch w query cfg)"

subsection \<open>The tools without a search\<close>

definition echo :: "string \<Rightarrow> handler_result" where
  "echo message = ([], Inr (text_response (''Hello '' @ message)))"

definition lines :: "string list \<Rightarrow> string" where
  "lines ls = Array_join [CHR 0x0A] ls"

text \<open>
  debug: \<open>JSON.stringify(info, null, 2)\<close> of a constant object. The list of the
  tools is that of the compiled server in one build and that of mcp-server.ts in the
  other.
\<close>

fun json_items :: "string list \<Rightarrow> string list" where
  \<open>json_items [] = []\<close>
| \<open>json_items [x] = [''    "'' @ x @ ''"'']\<close>
| \<open>json_items (x # y # xs) = (''    "'' @ x @ ''",'') # json_items (y # xs)\<close>

definition debug_text :: "string list \<Rightarrow> string" where
  \<open>debug_text toolsList = lines
     ([''{'',
       ''  "tools": [''] @ json_items toolsList @
      [''  ],'',
       ''  "resources": [''] @ json_items [''hello://sourcegraph'', ''greeting://{name}''] @
      [''  ],'',
       ''  "prompts": [''] @ json_items [''sourcegraph-assistant''] @
      [''  ],'',
       ''  "methods": [''] @ json_items [''tools/invoke'', ''mcp/capabilities'', ''debug/info''] @
      [''  ]'',
       ''}''])\<close>

definition toolsList_compiled :: "string list" where
  "toolsList_compiled =
     [''echo'', ''search-code'', ''search-commits'', ''search-diffs'', ''search-github-repos'',
      ''natural-search'', ''test-nl-search'', ''test-connection'', ''nl-search-help'', ''debug'',
      ''deep-code-researcher'']"

definition toolsList_source :: "string list" where
  "toolsList_source =
     [''echo'', ''search-code'', ''search-commits'', ''search-diffs'', ''search-github-repos'',
      ''test-connection'', ''debug'', ''deep-code-researcher'', ''get-definition'',
      ''find-references'', ''find-implementations'', ''get-hover-documentation'',
      ''get-document-symbols'', ''get-file-content'', ''get-file-blame'', ''lookup-cve'',
      ''lookup-package-vulnerability'', ''search-exploits'', ''find-vendor-advisory'']"

definition debug :: "string list \<Rightarrow> handler_result" where
  "debug toolsList = ([], Inr (text_response (debug_text toolsList)))"

definition deep_code_researcher :: "string \<Rightarrow> handler_result" where
  "deep_code_researcher query =
     ([], Inr (text_response (''Research query '' @ [CHR 0x27] @ query @ [CHR 0x27] @ '' processed. Implementation pending.'')))"

definition nl_search_help_text :: string where
  \<open>nl_search_help_text = lines
     [''# Natural Language Search Help'',
      '''',
      ''## How to use natural language search'',
      '''',
      ''1. Use the `natural-search` tool with a query parameter'',
      ''2. Express your search intent in natural language'',
      ''3. The system will analyze your query and convert it to Sourcegraph syntax'',
      '''',
      ''## Example queries'',
      '''',
      ''- **Code search**: "Find authentication code in the frontend"'',
      ''- **Commit search**: "Show commits by Jane from last week"'',
      ''- **Diff search**: "What changes were made to the API last month?"'',
      '''',
      ''## Supported filters (automatically detected)'',
      '''',
      ''- **Repository**: "in repository X" or "in repo X/Y"'',
      ''- **Author**: "by [author name]" or "from [author name]"'',
      ''- **Date**: "after 2023-01-01" or "since 2023-01-01"'',
      ''- **Type**: Automatically detected based on terms like "commit", "diff", or "code"'',
      '''',
      ''## Tips'',
      '''',
      ''- Be specific about what you're looking for'',
      ''- Include repository names when possible'',
      ''- For commits or diffs, mention author names and timeframes'',
      ''- To test query parsing without running a search, use `test-nl-search` tool'',
      '''']\<close>

definition nl_search_help :: handler_result where
  "nl_search_help = ([], Inr (text_response nl_search_help_text))"

subsection \<open>The test tools (test-tools.ts)\<close>

text \<open>
  test-nl-search reads the same properties, here without defaults; the read of
  \<open>queryAnalysis.repos.length\<close> is a TypeError when \<open>repos\<close> is \<open>undefined\<close>.
\<close>

definition test_nl_search_report :: "string \<Rightarrow> query_properties \<Rightarrow> string list \<Rightarrow> string \<Rightarrow> string" where
  \<open>test_nl_search_report query queryAnalysis repos searchQuery = lines
     [''# Natural Language Search Test Results'',
      '''',
      ''## Query Analysis'',
      ''- Original query: "'' @ query @ ''"'',
      ''- Detected search type: '' @ to_string (p_type queryAnalysis),
      ''- Extracted search terms: "'' @ to_string (p_query queryAnalysis) @ ''"'',
      (if truthy (p_author queryAnalysis)
       then ''- Author filter: '' @ to_string (p_author queryAnalysis) else []),
      (if truthy (p_after queryAnalysis)
       then ''- Date filter: after:'' @ to_string (p_after queryAnalysis) else []),
      (if length repos > 0 then ''- Repository filters: '' @ Array_join '', '' repos else []),
      '''',
      ''## Sourcegraph Query'',
      ''```'',
      searchQuery,
      ''```'',
      '''',
      ''This is a test tool that shows how natural language is processed without executing the actual search.'',
      ''To perform the real search, use the 'natural-search' tool instead.'',
      '''']\<close>

definition test_with_properties :: "string \<Rightarrow> query_properties \<Rightarrow> js_error + tool_response" where
  "test_with_properties query queryAnalysis =
     (let type = p_type queryAnalysis;
          searchQuery0 =
            to_string (p_query queryAnalysis) @ '' type:'' @ to_string type
            @ (if truthy (p_author queryAnalysis) \<and> (type = Some ''commit'' \<or> type = Some ''diff'')
               then '' author:'' @ to_string (p_author queryAnalysis) else [])
            @ (if truthy (p_after queryAnalysis) \<and> (type = Some ''commit'' \<or> type = Some ''diff'')
               then '' after:'' @ to_string (p_after queryAnalysis) else [])
      in case p_repos queryAnalysis of
           None \<Rightarrow> Inl (JsError ''Cannot read properties of undefined (reading 'length')'')
         | Some repos \<Rightarrow>
             (let searchQuery =
                    searchQuery0
                    @ (if length repos > 0 then '' '' @ Array_join '' '' (map repo_filter repos) else [])
                    @ '' count:20''
              in Inr (text_response (test_nl_search_report query queryAnalysis repos searchQuery))))"

definition test_nl_search :: "string \<Rightarrow> handler_result" where
  "test_nl_search query =
     ([], catch_as_response ''Error processing natural language test: ''
            (test_with_properties query promise_properties))"

text \<open>
  test-connection reads the environment when it runs. Its two texts begin with a sign
  outside the modelled characters (U+2705 and U+274C); the model writes the bytes of
  their UTF-8 form.
\<close>

definition test_connection :: "'j world \<Rightarrow> env \<Rightarrow> handler_result" where
  "test_connection w e =
     (let sgUrl = e ''SOURCEGRAPH_URL''; sgToken = e ''SOURCEGRAPH_TOKEN'';
          prefix = [CHR 0xE2, CHR 0x9D, CHR 0x8C] @ '' Error connecting to Sourcegraph API: ''
      in if \<not> truthy sgUrl \<or> \<not> truthy sgToken
         then ([], catch_as_response prefix (Inr (error_response config_error_text)))
         else
           (let request = \<lparr>address = to_string sgUrl @ ''/.api/graphql'', token = to_string sgToken,
                             document = CurrentUser, variables_query = None\<rparr>
            in ([request],
                catch_as_response prefix
                  (case axios_post w request of
                     Inl err \<Rightarrow> Inl err
                   | Inr response \<Rightarrow>
                       (case errors_of w response of
                          Inl err \<Rightarrow> Inl err
                        | Inr (Some errors) \<Rightarrow>
                            Inr (error_response (''Sourcegraph API Error: '' @ JSON_stringify w errors))
                        | Inr None \<Rightarrow>
                            (let username = to_string (js_or (username_of w response) (Some ''Anonymous user''))
                             in Inr (text_response
                                  ([CHR 0xE2, CHR 0x9C, CHR 0x85]
                                   @ '' Successfully connected to Sourcegraph API at '' @ to_string sgUrl
                                   @ [CHR 0x0A] @ ''Authenticated as: '' @ username
                                   @ [CHR 0x0A, CHR 0x0A]
                                   @ ''Sourcegraph connection is working properly.''))))))))"

subsection \<open>The code-intelligence, repository and security tools of mcp-server.ts\<close>

text \<open>
  These tools send a GraphQL document with variables of their own. A number is a value
  of any type with numerals; the handlers pass numbers on and never compute with them.
  A variable that is \<open>undefined\<close> is left out of the body by JSON.
\<close>

datatype query_document =
  HoverQuery
| DocumentSymbolsQuery
| FileContentQuery
| FileBlameQuery
| CVELookupQuery
| PackageVulnerabilityQuery
| DefinitionQuery
| ReferencesQuery
| ImplementationsQuery

datatype 'n variable =
  String_value string
| Number_value 'n
| Null_value
| Undefined_value

record 'n query_request =
  q_address :: string
  q_token :: string
  q_document :: query_document
  q_variables :: "(string \<times> 'n variable) list"

text \<open>\<open>revision\<close> as it is, and \<open>cveId || null\<close>.\<close>

definition optional_value :: "string option \<Rightarrow> 'n variable" where
  "optional_value v = (case v of None \<Rightarrow> Undefined_value | Some s \<Rightarrow> String_value s)"

definition value_or_null :: "string option \<Rightarrow> 'n variable" where
  "value_or_null v = (if truthy v then String_value (to_string v) else Null_value)"

text \<open>
  An error of \<open>axios.post\<close> as the \<open>catch\<close> of \<open>executeSourcegraphQuery\<close>
  tells it apart: with a response (its status as printed, and its body, if any), with a
  request but no response, or neither; the last two carry the message.
\<close>

datatype 'j axios_failure =
  Failure_response string "'j option"
| Failure_request string
| Failure_setup string

text \<open>
  The outside of these tools: the request; \<open>response.data\<close>; the hover data at
  \<open>response.data?.repository?.commit?.blob?.lsif?.hover\<close> and the symbols at
  \<open>...lsif?.documentSymbols?.symbols\<close>, \<open>None\<close> when the handler's test finds
  them falsy (or the symbols empty); the text that get-hover-documentation builds from
  the hover data and the one \<open>formatSymbols\<close> builds from the symbols, or the
  TypeError of a read in them; and the formatters of the services, given
  \<open>response.data\<close> and their parameters.
\<close>

record ('j, 'n) intelligence =
  axios_post_query :: "'n query_request \<Rightarrow> 'j axios_failure + 'j"
  data_of :: "'j \<Rightarrow> 'j option"
  hover_of :: "'j \<Rightarrow> 'j option"
  symbols_of :: "'j \<Rightarrow> 'j option"
  hover_text :: "'j \<Rightarrow> js_error + string"
  formatSymbols :: "'j \<Rightarrow> js_error + string"
  formatDefinitionResults :: "'j option \<Rightarrow> js_error + string"
  formatReferencesResults :: "'j option \<Rightarrow> (string \<times> 'n variable) list \<Rightarrow> js_error + string"
  formatImplementationsResults :: "'j option \<Rightarrow> (string \<times> 'n variable) list \<Rightarrow> js_error + string"
  formatFileContentResults :: "'j option \<Rightarrow> (string \<times> 'n variable) list \<Rightarrow> js_error + string"
  formatFileBlameResults :: "'j option \<Rightarrow> (string \<times> 'n variable) list \<Rightarrow> js_error + string"
  formatCVELookupResults :: "'j option \<Rightarrow> (string \<times> 'n variable) list \<Rightarrow> js_error + string"
  formatPackageVulnerabilityResults :: "'j option \<Rightarrow> (string \<times> 'n variable) list \<Rightarrow> js_error + string"

text \<open>\<open>getSourcegraphConfig(config)\<close> of services/code-intelligence.ts.\<close>

definition getSourcegraphConfig ::
  "(string option \<times> string option) option \<Rightarrow> env \<Rightarrow> js_error + string \<times> string" where
  "getSourcegraphConfig config e =
     (let url = js_or (case config of None \<Rightarrow> None | Some c \<Rightarrow> fst c) (e ''SOURCEGRAPH_URL'');
          token = js_or (case config of None \<Rightarrow> None | Some c \<Rightarrow> snd c) (e ''SOURCEGRAPH_TOKEN'')
      in if \<not> truthy url \<or> \<not> truthy token
         then Inl (JsError ''Sourcegraph URL or token not configured. Please set SOURCEGRAPH_URL and SOURCEGRAPH_TOKEN environment variables.'')
         else Inr (to_string url, to_string token))"

definition axios_failure_error :: "'j world \<Rightarrow> 'j axios_failure \<Rightarrow> js_error" where
  "axios_failure_error w failure =
     (case failure of
        Failure_response status data \<Rightarrow>
          JsError (''Sourcegraph API error ('' @ status @ ''): ''
                   @ to_string (map_option (JSON_stringify w) data))
      | Failure_request message \<Rightarrow> JsError (''No response from Sourcegraph API: '' @ message)
      | Failure_setup message \<Rightarrow> JsError (''Error setting up request: '' @ message))"

text \<open>\<open>executeSourcegraphQuery\<close>: the requests it sent, and the body or the error it throws.\<close>

definition executeSourcegraphQuery ::
  "'j world \<Rightarrow> ('j, 'n) intelligence \<Rightarrow> env \<Rightarrow> query_document \<Rightarrow> (string \<times> 'n variable) list \<Rightarrow>
   (string option \<times> string option) option \<Rightarrow> 'n query_request list \<times> (js_error + 'j)" where
  "executeSourcegraphQuery w iw e graphqlQuery variables sourcegraphConfig =
     (case getSourcegraphConfig sourcegraphConfig e of
        Inl err \<Rightarrow> ([], Inl err)
      | Inr config \<Rightarrow>
          (let request = \<lparr>q_address = fst config @ ''/.api/graphql'', q_token = snd config,
                           q_document = graphqlQuery, q_variables = variables\<rparr>
           in ([request],
               (case axios_post_query iw request of
                  Inr data \<Rightarrow> Inr data
                | Inl failure \<Rightarrow> Inl (axios_failure_error w failure)))))"

type_synonym 'n query_result = "'n query_request list \<times> (js_error + tool_response)"

text \<open>
  The body these handlers share inside their \<open>try\<close>: the request, the check of
  \<open>response.errors\<close>, then what the handler makes of the body; and the \<open>catch\<close>.
\<close>

definition query_and_render ::
  "'j world \<Rightarrow> ('j, 'n) intelligence \<Rightarrow> env \<Rightarrow> string \<Rightarrow> query_document \<Rightarrow>
   (string \<times> 'n variable) list \<Rightarrow> string \<times> string \<Rightarrow> ('j \<Rightarrow> js_error + tool_response) \<Rightarrow>
   'n query_result" where
  "query_and_render w iw e prefix graphqlQuery variables cfg render =
     (let sent = executeSourcegraphQuery w iw e graphqlQuery variables
                   (Some (Some (fst cfg), Some (snd cfg)))
      in (fst sent,
          catch_as_response prefix
            (case snd sent of
               Inl err \<Rightarrow> Inl err
             | Inr response \<Rightarrow>
                 (case errors_of w response of
                    Inl err \<Rightarrow> Inl err
                  | Inr (Some errors) \<Rightarrow>
                      Inr (error_response (''Sourcegraph API Error: '' @ JSON_stringify w errors))
                  | Inr None \<Rightarrow> render response))))"

text \<open>The text of a formatter as the response, or its error.\<close>

definition as_text :: "js_error + string \<Rightarrow> js_error + tool_response" where
  "as_text r = (case r of Inl err \<Rightarrow> Inl err | Inr formattedResults \<Rightarrow> Inr (text_response formattedResults))"

definition get_hover_documentation ::
  "'j world \<Rightarrow> ('j, 'n) intelligence \<Rightarrow> module_config \<Rightarrow> env \<Rightarrow> string \<Rightarrow> string \<Rightarrow> 'n \<Rightarrow> 'n \<Rightarrow>
   'n query_result" where
  "get_hover_documentation w iw m e repository path line character =
     (case effective_credentials m e of
        None \<Rightarrow> ([], Inr (error_response config_error_text))
      | Some cfg \<Rightarrow>
          query_and_render w iw e ''Error getting hover documentation: '' HoverQuery
            [(''repository'', String_value repository), (''path'', String_value path),
             (''line'', Number_value line), (''character'', Number_value character)] cfg
            (\<lambda>response.
               case hover_of iw response of
                 None \<Rightarrow> Inr (text_response
                   ''No hover documentation found or LSIF data not available for this file.'')
               | Some hoverData \<Rightarrow> as_text (hover_text iw hoverData)))"

definition get_document_symbols ::
  "'j world \<Rightarrow> ('j, 'n) intelligence \<Rightarrow> module_config \<Rightarrow> env \<Rightarrow> string \<Rightarrow> string \<Rightarrow> 'n query_result" where
  "get_document_symbols w iw m e repository path =
     (case effective_credentials m e of
        None \<Rightarrow> ([], Inr (error_response config_error_text))
      | Some cfg \<Rightarrow>
          query_and_render w iw e ''Error getting document symbols: '' DocumentSymbolsQuery
            [(''repository'', String_value repository), (''path'', String_value path)] cfg
            (\<lambda>response.
               case symbols_of iw response of
                 None \<Rightarrow> Inr (text_response
                   ''No symbols found or LSIF data not available for this file.'')
               | Some symbolsData \<Rightarrow>
                   (case formatSymbols iw symbolsData of
                      Inl err \<Rightarrow> Inl err
                    | Inr t \<Rightarrow> Inr (text_response
                        (''## Symbols in '' @ repository @ '':'' @ path @ [CHR 0x0A, CHR 0x0A] @ t)))))"

definition get_file_content ::
  "'j world \<Rightarrow> ('j, 'n) intelligence \<Rightarrow> module_config \<Rightarrow> env \<Rightarrow> string \<Rightarrow> string \<Rightarrow> string option \<Rightarrow>
   'n query_result" where
  "get_file_content w iw m e repository path revision =
     (case effective_credentials m e of
        None \<Rightarrow> ([], Inr (error_response config_error_text))
      | Some cfg \<Rightarrow>
          (let params = [(''repository'', String_value repository), (''path'', String_value path),
                         (''revision'', optional_value revision)]
           in query_and_render w iw e ''Error getting file content: '' FileContentQuery params cfg
                (\<lambda>response. as_text (formatFileContentResults iw (data_of iw response) params))))"

definition get_file_blame ::
  "'j world \<Rightarrow> ('j, 'n) intelligence \<Rightarrow> module_config \<Rightarrow> env \<Rightarrow> string \<Rightarrow> string \<Rightarrow> 'n \<Rightarrow> 'n \<Rightarrow>
   'n query_result" where
  "get_file_blame w iw m e repository path startLine endLine =
     (case effective_credentials m e of
        None \<Rightarrow> ([], Inr (error_response config_error_text))
      | Some cfg \<Rightarrow>
          (let params = [(''repository'', String_value repository), (''path'', String_value path),
                         (''startLine'', Number_value startLine), (''endLine'', Number_value endLine)]
           in query_and_render w iw e ''Error getting file blame: '' FileBlameQuery params cfg
                (\<lambda>response. as_text (formatFileBlameResults iw (data_of iw response) params))))"

text \<open>lookup-cve asks for one parameter at least, before its \<open>try\<close>.\<close>

definition lookup_cve ::
  "'j world \<Rightarrow> ('j, 'n::numeral) intelligence \<Rightarrow> module_config \<Rightarrow> env \<Rightarrow> string option \<Rightarrow>
   string option \<Rightarrow> string option \<Rightarrow> 'n query_result" where
  "lookup_cve w iw m e cveId packageName repository =
     (case effective_credentials m e of
        None \<Rightarrow> ([], Inr (error_response config_error_text))
      | Some cfg \<Rightarrow>
          if \<not> truthy cveId \<and> \<not> truthy packageName \<and> \<not> truthy repository
          then ([], Inr (error_response
                  ''Error: At least one parameter (cveId, package, or repository) must be provided.''))
          else query_and_render w iw e ''Error looking up CVE: '' CVELookupQuery
                 [(''cveId'', value_or_null cveId), (''package'', value_or_null packageName),
                  (''repository'', value_or_null repository), (''limit'', Number_value 50)] cfg
                 (\<lambda>response. as_text (formatCVELookupResults iw (data_of iw response)
                    [(''cveId'', optional_value cveId), (''package'', optional_value packageName),
                     (''repository'', optional_value repository)])))"

definition lookup_package_vulnerability ::
  "'j world \<Rightarrow> ('j, 'n::numeral) intelligence \<Rightarrow> module_config \<Rightarrow> env \<Rightarrow> string \<Rightarrow> string option \<Rightarrow>
   'n query_result" where
  "lookup_package_vulnerability w iw m e packageName version =
     (case effective_credentials m e of
        None \<Rightarrow> ([], Inr (error_response config_error_text))
      | Some cfg \<Rightarrow>
          query_and_render w iw e ''Error looking up package vulnerabilities: ''
            PackageVulnerabilityQuery
            [(''package'', String_value packageName), (''version'', value_or_null version),
             (''limit'', Number_value 50)] cfg
            (\<lambda>response. as_text (formatPackageVulnerabilityResults iw (data_of iw response)
               [(''package'', String_value packageName), (''version'', optional_value version)])))"

definition get_definition ::
  "'j world \<Rightarrow> ('j, 'n) intelligence \<Rightarrow> module_config \<Rightarrow> env \<Rightarrow> string \<Rightarrow> string \<Rightarrow> 'n \<Rightarrow> 'n \<Rightarrow>
   'n query_result" where
  "get_definition w iw m e repository path line character =
     (case effective_credentials m e of
        None \<Rightarrow> ([], Inr (error_response config_error_text))
      | Some cfg \<Rightarrow>
          query_and_render w iw e ''Error finding definition: '' DefinitionQuery
            [(''repository'', String_value repository), (''path'', String_value path),
             (''line'', Number_value line), (''character'', Number_value character)] cfg
            (\<lambda>response. as_text (formatDefinitionResults iw (data_of iw response))))"

definition find_references ::
  "'j world \<Rightarrow> ('j, 'n) intelligence \<Rightarrow> module_config \<Rightarrow> env \<Rightarrow> string \<Rightarrow> string \<Rightarrow> 'n \<Rightarrow> 'n \<Rightarrow> 'n \<Rightarrow>
   'n query_result" where
  "find_references w iw m e repository path line character limit =
     (case effective_credentials m e of
        None \<Rightarrow> ([], Inr (error_response config_error_text))
      | Some cfg \<Rightarrow>
          (let params = [(''repository'', String_value repository), (''path'', String_value path),
                         (''line'', Number_value line), (''character'', Number_value character)]
           in query_and_render w iw e ''Error finding references: '' ReferencesQuery
                (params @ [(''limit'', Number_value limit)]) cfg
                (\<lambda>response. as_text (formatReferencesResults iw (data_of iw response) params))))"

definition find_implementations ::
  "'j world \<Rightarrow> ('j, 'n) intelligence \<Rightarrow> module_config \<Rightarrow> env \<Rightarrow> string \<Rightarrow> string \<Rightarrow> 'n \<Rightarrow> 'n \<Rightarrow> 'n \<Rightarrow>
   'n query_result" where
  "find_implementations w iw m e repository path line character limit =
     (case effective_credentials m e of
        None \<Rightarrow> ([], Inr (error_response config_error_text))
      | Some cfg \<Rightarrow>
          (let params = [(''repository'', String_value repository), (''path'', String_value path),
                         (''line'', Number_value line), (''character'', Number_value character)]
           in query_and_render w iw e ''Error finding implementations: '' ImplementationsQuery
                (params @ [(''limit'', Number_value limit)]) cfg
                (\<lambda>response. as_text (formatImplementationsResults iw (data_of iw response) params))))"

text \<open>
  search-exploits and find-vendor-advisory search files with a query of
  services/security.ts and put a header before the formatted results.
\<close>

definition buildExploitSearchQuery :: "string \<Rightarrow> string" where
  \<open>buildExploitSearchQuery cveId =
     ''type:file ('' @ cveId @ '' OR "'' @ cveId @ ''") (poc OR exploit OR proof-of-concept) count:20''\<close>

definition buildVendorAdvisorySearchQuery :: "string \<Rightarrow> string \<Rightarrow> string" where
  \<open>buildVendorAdvisorySearchQuery vendor product =
     ''type:file "'' @ vendor @ ''" "'' @ product @ ''" (security OR advisory OR vulnerability OR CVE) count:20''\<close>

definition search_with_header ::
  "'j world \<Rightarrow> string \<Rightarrow> string \<Rightarrow> string \<Rightarrow> string \<times> string \<Rightarrow> handler_result" where
  "search_with_header w prefix searchQuery header cfg =
     ([graphql_request searchQuery FileSearch cfg],
      catch_as_response prefix
        (case executeSourcegraphSearch w searchQuery FileSearch cfg of
           Inl err \<Rightarrow> Inl err
         | Inr response \<Rightarrow>
             (case errors_of w response of
                Inl err \<Rightarrow> Inl err
              | Inr (Some errors) \<Rightarrow>
                  Inr (error_response (''Sourcegraph API Error: '' @ JSON_stringify w errors))
              | Inr None \<Rightarrow>
                  (case results_of w response of
                     Inl err \<Rightarrow> Inl err
                   | Inr results \<Rightarrow>
                       (case formatSearchResults w results (Some searchQuery) ''file'' of
                          Inl err \<Rightarrow> Inl err
                        | Inr formattedResults \<Rightarrow>
                            Inr (text_response (header @ formattedResults)))))))"

definition search_exploits :: "'j world \<Rightarrow> module_config \<Rightarrow> env \<Rightarrow> string \<Rightarrow> handler_result" where
  "search_exploits w m e cveId =
     (case effective_credentials m e of
        None \<Rightarrow> ([], Inr (error_response config_error_text))
      | Some cfg \<Rightarrow>
          (let searchQuery = buildExploitSearchQuery cveId
           in search_with_header w ''Error searching for exploits: '' searchQuery
                (''## Exploit Search Results for '' @ cveId @ [CHR 0x0A, CHR 0x0A]
                 @ ''Searched for: '' @ searchQuery @ [CHR 0x0A, CHR 0x0A]) cfg))"

definition find_vendor_advisory ::
  "'j world \<Rightarrow> module_config \<Rightarrow> env \<Rightarrow> string \<Rightarrow> string \<Rightarrow> handler_result" where
  "find_vendor_advisory w m e vendor product =
     (case effective_credentials m e of
        None \<Rightarrow> ([], Inr (error_response config_error_text))
      | Some cfg \<Rightarrow>
          (let searchQuery = buildVendorAdvisorySearchQuery vendor product
           in search_with_header w ''Error finding vendor advisories: '' searchQuery
                (''## Security Advisories for '' @ vendor @ '' '' @ product @ [CHR 0x0A, CHR 0x0A]
                 @ ''Searched for: '' @ searchQuery @ [CHR 0x0A, CHR 0x0A]) cfg))"

text \<open>deep-code-researcher of mcp-server.ts takes three more arguments and does not use them.\<close>

definition deep_code_researcher_source ::
  "string \<Rightarrow> string option \<Rightarrow> string option \<Rightarrow> 'n option \<Rightarrow> handler_result" where
  "deep_code_researcher_source query language repo limit = deep_code_researcher query"

subsection \<open>The registered tools\<close>

text \<open>
  A call names a tool and carries arguments that passed the schema of the tool, with
  the defaults of the schema filled in; the server hands them to the handler registered
  under the name. The calls are those of the compiled server, of mcp-server.ts, of
  test-tools.ts and of mcp-server-debug.ts. A request is one of a search or one with
  variables.
\<close>

datatype 'n tool_call =
  Call_echo string
| Call_search_code string search_type
| Call_search_commits "string option" "string option" "string option"
| Call_search_diffs "string option" "string option" "string option"
| Call_search_github_repos string string search_type
| Call_natural_search string "'n option"
| Call_natural_search_debug string "'n option"
| Call_debug
| Call_debug_source
| Call_test_nl_search string
| Call_test_connection
| Call_nl_search_help
| Call_deep_code_researcher string
| Call_deep_code_researcher_source string "string option" "string option" "'n option"
| Call_get_hover_documentation string string 'n 'n
| Call_get_document_symbols string string
| Call_get_file_content string string "string option"
| Call_get_file_blame string string 'n 'n
| Call_lookup_cve "string option" "string option" "string option"
| Call_lookup_package_vulnerability string "string option"
| Call_search_exploits string
| Call_find_vendor_advisory string string
| Call_get_definition string string 'n 'n
| Call_find_references string string 'n 'n 'n
| Call_find_implementations string string 'n 'n 'n

datatype 'n request =
  Search_request sg_request
| Query_request "'n query_request"

definition of_search :: "handler_result \<Rightarrow> 'n request list \<times> (js_error + tool_response)" where
  "of_search r = (map Search_request (fst r), snd r)"

definition of_query :: "'n query_result \<Rightarrow> 'n request list \<times> (js_error + tool_response)" where
  "of_query r = (map Query_request (fst r), snd r)"

fun call_tool ::
  "'j world \<Rightarrow> ('j, 'n::numeral) intelligence \<Rightarrow> module_config \<Rightarrow> env \<Rightarrow> 'n tool_call \<Rightarrow>
   'n request list \<times> (js_error + tool_response)" where
  "call_tool w iw m e (Call_echo message) = of_search (echo message)"
| "call_tool w iw m e (Call_search_code query type) = of_search (search_code w m e query type)"
| "call_tool w iw m e (Call_search_commits author message after) =
     of_search (search_commits w m e author message after)"
| "call_tool w iw m e (Call_search_diffs query author after) =
     of_search (search_diffs w m e query author after)"
| "call_tool w iw m e (Call_search_github_repos query repos type) =
     of_search (search_github_repos w m e query repos type)"
| "call_tool w iw m e (Call_natural_search query max_results) =
     of_search (natural_search w m e query max_results)"
| "call_tool w iw m e (Call_natural_search_debug query max_results) =
     of_search (natural_search_debug w m e query max_results)"
| "call_tool w iw m e Call_debug = of_search (debug toolsList_compiled)"
| "call_tool w iw m e Call_debug_source = of_search (debug toolsList_source)"
| "call_tool w iw m e (Call_test_nl_search query) = of_search (test_nl_search query)"
| "call_tool w iw m e Call_test_connection = of_search (test_connection w e)"
| "call_tool w iw m e Call_nl_search_help = of_search nl_search_help"
| "call_tool w iw m e (Call_deep_code_researcher query) = of_search (deep_code_researcher query)"
| "call_tool w iw m e (Call_deep_code_researcher_source query language repo limit) =
     of_search (deep_code_researcher_source query language repo limit)"
| "call_tool w iw m e (Call_get_hover_documentation repository path line character) =
     of_query (get_hover_documentation w iw m e repository path line character)"
| "call_tool w iw m e (Call_get_document_symbols repository path) =
     of_query (get_document_symbols w iw m e repository path)"
| "call_tool w iw m e (Call_get_file_content repository path revision) =
     of_query (get_file_content w iw m e repository path revision)"
| "call_tool w iw m e (Call_get_file_blame repository path startLine endLine) =
     of_query (get_file_blame w iw m e repository path startLine endLine)"
| "call_tool w iw m e (Call_lookup_cve cveId packageName repository) =
     of_query (lookup_cve w iw m e cveId packageName repository)"
| "call_tool w iw m e (Call_lookup_package_vulnerability packageName version) =
     of_query (lookup_package_vulnerability w iw m e packageName version)"
| "call_tool w iw m e (Call_search_exploits cveId) = of_search (search_exploits w m e cveId)"
| "call_tool w iw m e (Call_find_vendor_advisory vendor product) =
     of_search (find_vendor_advisory w m e vendor product)"
| "call_tool w iw m e (Call_get_definition repository path line character) =
     of_query (get_definition w iw m e repository path line character)"
| "call_tool w iw m e (Call_find_references repository path line character limit) =
     of_query (find_references w iw m e repository path line character limit)"
| "call_tool w iw m e (Call_find_implementations repository path line character limit) =
     of_query (find_implementations w iw m e repository path line character limit)"

subsection \<open>Notions for the properties of the tools\<close>

text \<open>The number of places of a string where \<open>sub\<close> begins.\<close>

primrec occurrences :: "string \<Rightarrow> string \<Rightarrow> nat" where
  "occurrences [] sub = (if sub = [] then 1 else 0)"
| "occurrences (c # cs) sub =
     (if take (length sub) (c # cs) = sub then 1 else 0) + occurrences cs sub"

text \<open>
  A structured response: one block of text, and a flag that is absent or \<open>true\<close>.
\<close>

definition structured :: "tool_response \<Rightarrow> bool" where
  "structured r = ((\<exists>t. content r = [TextBlock t]) \<and> (isError r = None \<or> isError r = Some True))"

text \<open>Example environments and an example of the outside, where every request is refused.\<close>

definition example_env :: env where
  "example_env = [''SOURCEGRAPH_URL'' \<mapsto> ''https://sourcegraph.example.com'',
                  ''SOURCEGRAPH_TOKEN'' \<mapsto> ''sgp_token'']"

definition token_only_env :: env where
  "token_only_env = [''SOURCEGRAPH_TOKEN'' \<mapsto> ''sgp_token'']"

definition example_world :: "nat world" where
  "example_world =
     \<lparr>axios_post = (\<lambda>r. Inl (JsError ''connect ECONNREFUSED'')),
      errors_of = (\<lambda>j. Inr None),
      results_of = (\<lambda>j. Inr None),
      username_of = (\<lambda>j. None),
      JSON_stringify = (\<lambda>j. ''[]''),
      formatSearchResults = (\<lambda>r q t. Inr ''No matches found'')\<rparr>"

definition empty_env :: env where
  "empty_env = Map.empty"

section \<open>The natural-language translator (services/llm.ts, utils/formatter.ts)\<close>

subsection \<open>Regular expressions\<close>

text \<open>
  The expressions of the translator use literals, classes of characters, \<open>+\<close> on a
  class, sequence, alternative, an optional part, \<open>\b\<close>, \<open>^\<close> and at most one
  group whose text is read; a group whose text is not read is written as what it holds. Matching is the backtracking of JavaScript: alternatives from left to right,
  \<open>+\<close> and \<open>?\<close> greedy, the leftmost start first. With the flag \<open>i\<close> a literal
  is compared without regard to the case of the letters a to z; every literal of these
  expressions is ASCII, and no character above 127 is equal to an ASCII letter under
  the flag.
\<close>

definition is_digit :: "char \<Rightarrow> bool" where
  "is_digit c = (48 \<le> (of_char c :: nat) \<and> (of_char c :: nat) \<le> 57)"

definition is_upper :: "char \<Rightarrow> bool" where
  "is_upper c = (65 \<le> (of_char c :: nat) \<and> (of_char c :: nat) \<le> 90)"

definition is_lower :: "char \<Rightarrow> bool" where
  "is_lower c = (97 \<le> (of_char c :: nat) \<and> (of_char c :: nat) \<le> 122)"

text \<open>\<open>\w\<close>\<close>

definition is_word :: "char \<Rightarrow> bool" where
  "is_word c = (is_digit c \<or> is_upper c \<or> is_lower c \<or> c = CHR ''_'')"

definition to_upper :: "char \<Rightarrow> char" where
  "to_upper c = (if is_lower c then char_of ((of_char c :: nat) - 32) else c)"

text \<open>\<open>.\<close> matches all but the line terminators.\<close>

definition is_dot :: "char \<Rightarrow> bool" where
  "is_dot c = (c \<noteq> CHR 0x0A \<and> c \<noteq> CHR 0x0D)"


datatype regex =
  RLit string
| RClass "char \<Rightarrow> bool"
| RPlus "char \<Rightarrow> bool"
| RSeq regex regex
| RAlt regex regex
| ROpt regex
| RWordB
| RStart
| RGroup regex

text \<open>A state of the matcher: the position in the string and the span of the group.\<close>

type_synonym mstate = "nat \<times> (nat \<times> nat) option"

definition lit_at :: "bool \<Rightarrow> string \<Rightarrow> string \<Rightarrow> nat \<Rightarrow> bool" where
  "lit_at ignoreCase l s i =
     (i + length l \<le> length s \<and>
      (if ignoreCase then map to_upper (take (length l) (drop i s)) = map to_upper l
       else take (length l) (drop i s) = l))"

definition word_at :: "string \<Rightarrow> nat \<Rightarrow> bool" where
  "word_at s i = (i < length s \<and> is_word (s ! i))"

definition is_boundary :: "string \<Rightarrow> nat \<Rightarrow> bool" where
  "is_boundary s i = ((0 < i \<and> word_at s (i - 1)) \<noteq> word_at s i)"

text \<open>The ends \<open>i + n\<close>, ..., \<open>i + 1\<close> of a greedy \<open>+\<close>, the longest first.\<close>

primrec try_back :: "(nat \<Rightarrow> 'a option) \<Rightarrow> nat \<Rightarrow> nat \<Rightarrow> 'a option" where
  "try_back k i 0 = None"
| "try_back k i (Suc n) = (case k (i + Suc n) of Some r \<Rightarrow> Some r | None \<Rightarrow> try_back k i n)"

fun rmatch :: "bool \<Rightarrow> regex \<Rightarrow> string \<Rightarrow> mstate \<Rightarrow> (mstate \<Rightarrow> 'a option) \<Rightarrow> 'a option" where
  "rmatch ic (RLit l) s st k =
     (if lit_at ic l s (fst st) then k (fst st + length l, snd st) else None)"
| "rmatch ic (RClass p) s st k =
     (if fst st < length s \<and> p (s ! fst st) then k (Suc (fst st), snd st) else None)"
| "rmatch ic (RPlus p) s st k =
     try_back (\<lambda>j. k (j, snd st)) (fst st) (length (takeWhile p (drop (fst st) s)))"
| "rmatch ic (RSeq a b) s st k = rmatch ic a s st (\<lambda>st'. rmatch ic b s st' k)"
| "rmatch ic (RAlt a b) s st k =
     (case rmatch ic a s st k of Some r \<Rightarrow> Some r | None \<Rightarrow> rmatch ic b s st k)"
| "rmatch ic (ROpt a) s st k =
     (case rmatch ic a s st k of Some r \<Rightarrow> Some r | None \<Rightarrow> k st)"
| "rmatch ic RWordB s st k = (if is_boundary s (fst st) then k st else None)"
| "rmatch ic RStart s st k = (if fst st = 0 then k st else None)"
| "rmatch ic (RGroup a) s st k =
     rmatch ic a s st (\<lambda>st'. k (fst st', Some (fst st, fst st')))"

text \<open>A match: where it starts, where it ends, and the span of the group.\<close>

record rmatch_result =
  m_start :: nat
  m_end :: nat
  m_group :: "(nat \<times> nat) option"

primrec first_match :: "bool \<Rightarrow> regex \<Rightarrow> string \<Rightarrow> nat list \<Rightarrow> rmatch_result option" where
  "first_match ic r s [] = None"
| "first_match ic r s (i # starts) =
     (case rmatch ic r s (i, None) Some of
        Some st \<Rightarrow> Some \<lparr>m_start = i, m_end = fst st, m_group = snd st\<rparr>
      | None \<Rightarrow> first_match ic r s starts)"

text \<open>\<open>regex.exec(s)\<close> with \<open>lastIndex\<close> at \<open>from\<close>.\<close>

definition exec_from :: "bool \<Rightarrow> regex \<Rightarrow> string \<Rightarrow> nat \<Rightarrow> rmatch_result option" where
  "exec_from ic r s from = first_match ic r s [from..<Suc (length s)]"

definition substring :: "string \<Rightarrow> nat \<Rightarrow> nat \<Rightarrow> string" where
  "substring s i j = take (j - i) (drop i s)"

text \<open>\<open>regex.test(s)\<close>\<close>

definition RegExp_test :: "bool \<Rightarrow> regex \<Rightarrow> string \<Rightarrow> bool" where
  "RegExp_test ic r s = (exec_from ic r s 0 \<noteq> None)"

text \<open>\<open>s.match(regex)[1]\<close> for an expression without the flag \<open>g\<close>; \<open>None\<close> when there is no match.\<close>

definition match_group :: "bool \<Rightarrow> regex \<Rightarrow> string \<Rightarrow> string option" where
  "match_group ic r s =
     (case exec_from ic r s 0 of
        None \<Rightarrow> None
      | Some m \<Rightarrow> (case m_group m of None \<Rightarrow> None | Some g \<Rightarrow> Some (substring s (fst g) (snd g))))"

text \<open>\<open>s.replace(regex, '')\<close> for an expression without the flag \<open>g\<close>.\<close>

definition remove_first :: "bool \<Rightarrow> regex \<Rightarrow> string \<Rightarrow> string" where
  "remove_first ic r s =
     (case exec_from ic r s 0 of
        None \<Rightarrow> s
      | Some m \<Rightarrow> take (m_start m) s @ drop (m_end m) s)"

text \<open>
  All matches with the flag \<open>g\<close>, each search starting where the last match ended.
  None of the expressions used with the flag matches the empty string, so a match ends
  after the place its search started from; the test of that closes the recursion.
\<close>

function all_matches :: "bool \<Rightarrow> regex \<Rightarrow> string \<Rightarrow> nat \<Rightarrow> rmatch_result list" where
  "all_matches ic r s from =
     (case exec_from ic r s from of
        None \<Rightarrow> []
      | Some m \<Rightarrow>
          if from < m_end m \<and> m_end m \<le> length s then m # all_matches ic r s (m_end m)
          else [m])"
  by pat_completeness auto
termination
  by (relation "measure (\<lambda>(ic, r, s, from). length s - from)") auto

text \<open>\<open>s.replace(regex, replacement)\<close> with the flag \<open>g\<close>.\<close>

fun splice :: "string \<Rightarrow> nat \<Rightarrow> rmatch_result list \<Rightarrow> string \<Rightarrow> string" where
  "splice s from [] replacement = drop from s"
| "splice s from (m # ms) replacement =
     substring s from (m_start m) @ replacement @ splice s (m_end m) ms replacement"

definition replace_all :: "regex \<Rightarrow> string \<Rightarrow> string \<Rightarrow> string" where
  "replace_all r replacement s = splice s 0 (all_matches False r s 0) replacement"

fun rseq :: "regex list \<Rightarrow> regex" where
  "rseq [] = RLit []"
| "rseq [r] = r"
| "rseq (r # rs) = RSeq r (rseq rs)"

fun alternatives :: "string list \<Rightarrow> regex" where
  "alternatives [] = RLit []"
| "alternatives [l] = RLit l"
| "alternatives (l # ls) = RAlt (RLit l) (alternatives ls)"

text \<open>
  The pattern that \<open>new RegExp\<close> reads from a captured text inside a template: the
  text consists of word characters, \<open>/\<close>, \<open>-\<close> and \<open>.\<close>, and only \<open>.\<close> is
  special there.
\<close>

fun pattern_of_text :: "string \<Rightarrow> regex" where
  "pattern_of_text [] = RLit []"
| "pattern_of_text (c # cs) =
     RSeq (if c = CHR ''.'' then RClass is_dot else RLit [c]) (pattern_of_text cs)"

subsection \<open>The result of an analysis\<close>

record analysis =
  r_type :: string
  r_query :: string
  r_author :: "string option"
  r_after :: "string option"
  r_repos :: "string list"
  r_originalQuery :: string

subsection \<open>\<open>parseWithRules\<close>, the rule-based analysis\<close>

definition commit_words :: "string list" where
  "commit_words = [''commit'', ''commits'']"

definition diff_words :: "string list" where
  "diff_words = [''diff'', ''diffs'', ''change'', ''changes'', ''pr'', ''prs'',
                 ''pull request'', ''pull requests'']"

text \<open>\<open>/\b(commit|commits)\b/i\<close> and its fellows: a group of words between two \<open>\b\<close>.\<close>

definition words_regex :: "string list \<Rightarrow> regex" where
  "words_regex ws = rseq [RWordB, RGroup (alternatives ws), RWordB]"

text \<open>\<open>[\w.-]\<close> and \<open>[\w\/.-]\<close>\<close>

definition is_name_char :: "char \<Rightarrow> bool" where
  "is_name_char c = (is_word c \<or> c = CHR ''.'' \<or> c = CHR ''-'')"

definition is_repo_char :: "char \<Rightarrow> bool" where
  "is_repo_char c = (is_word c \<or> c = CHR ''/'' \<or> c = CHR ''.'' \<or> c = CHR ''-'')"

text \<open>\<open>\b(?:by|from|author)\s+\<close>, \<open>\b(?:after|since)\s+\<close> and \<open>\bin\s+repo(?:sitory)?\s+\<close>\<close>

definition author_intro :: "regex list" where
  "author_intro = [RWordB, alternatives [''by'', ''from'', ''author''], RPlus is_space]"

definition date_intro :: "regex list" where
  "date_intro = [RWordB, alternatives [''after'', ''since''], RPlus is_space]"

definition repo_intro :: "regex list" where
  "repo_intro = [RWordB, RLit ''in'', RPlus is_space, RLit ''repo'', ROpt (RLit ''sitory''),
                 RPlus is_space]"

text \<open>\<open>\d{4}-\d{2}-\d{2}\<close>\<close>

definition date_regex :: regex where
  "date_regex =
     rseq [RClass is_digit, RClass is_digit, RClass is_digit, RClass is_digit, RLit ''-'',
           RClass is_digit, RClass is_digit, RLit ''-'', RClass is_digit, RClass is_digit]"

text \<open>
  \<open>query.match(/\bin\s+repo(?:sitory)?\s+([\w\/.-]+)\b/ig)\<close> and, for each match,
  \<open>match.replace(/\bin\s+repo(?:sitory)?\s+/i, '')\<close>.
\<close>

definition repo_names :: "string \<Rightarrow> string list" where
  "repo_names query =
     map (\<lambda>m. remove_first True (rseq repo_intro) (substring query (m_start m) (m_end m)))
       (all_matches True (rseq (repo_intro @ [RGroup (RPlus is_repo_char), RWordB])) query 0)"

definition remove_repo :: "string \<Rightarrow> string \<Rightarrow> string" where
  "remove_repo searchQuery repo =
     remove_first True (rseq (repo_intro @ [pattern_of_text repo, RWordB])) searchQuery"

definition parseWithRules :: "string \<Rightarrow> analysis" where
  "parseWithRules query =
     (let searchType =
            (if RegExp_test True (words_regex commit_words) query then ''commit''
             else if RegExp_test True (words_regex diff_words) query then ''diff''
             else ''file'');
          author = match_group True (rseq (author_intro @ [RGroup (RPlus is_name_char), RWordB])) query;
          after = match_group True (rseq (date_intro @ [RGroup date_regex, RWordB])) query;
          repos = repo_names query;
          searchQuery1 =
            (case author of
               Some a \<Rightarrow> remove_first True (rseq (author_intro @ [pattern_of_text a, RWordB])) query
             | None \<Rightarrow> query);
          searchQuery2 =
            (case after of
               Some d \<Rightarrow> remove_first True (rseq (date_intro @ [pattern_of_text d, RWordB])) searchQuery1
             | None \<Rightarrow> searchQuery1);
          searchQuery3 = foldl remove_repo searchQuery2 repos;
          searchQuery =
            String_trim
              (replace_all (RPlus is_space) '' ''
                 (remove_first True (words_regex (commit_words @ diff_words))
                    (remove_first True (words_regex [''search for'', ''find'', ''look for''])
                       searchQuery3)))
      in \<lparr>r_type = searchType, r_query = searchQuery, r_author = author, r_after = after,
          r_repos = repos, r_originalQuery = query\<rparr>)"

subsection \<open>\<open>parseSourcegraphQuery\<close>, the analysis of a query in the syntax of the platform\<close>




subsection \<open>\<open>convertQueryToSourcegraphSyntax\<close> of src/services/llm.ts\<close>







subsection \<open>\<open>convertQueryToSourcegraphSyntax\<close> of dist/services/llm.js and its fallback\<close>











subsection \<open>\<open>analyzeQuery\<close> (utils/formatter.ts)\<close>





section \<open>Properties of the session registry\<close>

lemma Map_has_iff: "Map_has k m \<longleftrightarrow> k \<in> fst ` set m"
  by (simp add: Map_has_def map_of_eq_None_iff)

lemma set_Map_set_subset: "set (Map_set k v m) \<subseteq> insert (k, v) (set m)"
  by (induction m) auto

lemma keys_Map_set: "fst ` set (Map_set k v m) = insert k (fst ` set m)"
  by (induction m) auto

lemma values_Map_set: "snd ` set (Map_set k v m) \<subseteq> insert v (snd ` set m)"
  using set_Map_set_subset [of k v m] by force

lemma distinct_keys_Map_set:
  "distinct (map fst m) \<Longrightarrow> distinct (map fst (Map_set k v m))"
  by (induction m) (auto simp: keys_Map_set)

lemma distinct_values_Map_set:
  "distinct (map snd m) \<Longrightarrow> v \<notin> snd ` set m \<Longrightarrow> distinct (map snd (Map_set k v m))"
proof (induction m)
  case Nil
  then show ?case by simp
next
  case (Cons p ps)
  have "snd p \<notin> snd ` set (Map_set k v ps)"
    using Cons.prems values_Map_set [of k v ps] by auto
  with Cons show ?case by auto
qed

lemma Map_get_Map_set: "Map_get k (Map_set k v m) = Some v"
  by (induction m) (auto simp: Map_get_def)

lemma Map_get_Map_set_other: "k' \<noteq> k \<Longrightarrow> Map_get k' (Map_set k v m) = Map_get k' m"
  by (induction m) (auto simp: Map_get_def)

lemma set_Map_delete: "set (Map_delete k m) = {p \<in> set m. fst p \<noteq> k}"
  by (auto simp: Map_delete_def)

lemma distinct_Map_delete:
  "distinct (map f m) \<Longrightarrow> distinct (map f (Map_delete k m))"
  by (simp add: Map_delete_def distinct_map_filter)

lemma sessionId_of_nonempty: "sessionId_of req \<noteq> []"
  by (simp add: sessionId_of_def split: option.split)

lemma registry_inv_initial: "registry_inv initial_state"
  by (simp add: registry_inv_def initial_state_def)

lemma registry_inv_register:
  assumes "registry_inv st"
  shows "registry_inv (st\<lparr>connections := Map_set (sessionId_of req) (next_transport st) (connections st),
                          next_transport := Suc (next_transport st)\<rparr>)"
proof -
  let ?m = "Map_set (sessionId_of req) (next_transport st) (connections st)"
  have fresh: "next_transport st \<notin> snd ` set (connections st)"
    using assms by (auto simp: registry_inv_def)
  have d1: "distinct (map fst ?m)"
    using assms by (simp add: registry_inv_def distinct_keys_Map_set)
  have d2: "distinct (map snd ?m)"
    using assms fresh by (simp add: registry_inv_def distinct_values_Map_set)
  have b: "\<forall>p \<in> set ?m. snd p < Suc (next_transport st) \<and> fst p \<noteq> []"
  proof
    fix p assume "p \<in> set ?m"
    then have "p = (sessionId_of req, next_transport st) \<or> p \<in> set (connections st)"
      using set_Map_set_subset by fastforce
    then show "snd p < Suc (next_transport st) \<and> fst p \<noteq> []"
      using assms sessionId_of_nonempty by (auto simp: registry_inv_def less_Suc_eq)
  qed
  show ?thesis using d1 d2 b by (simp add: registry_inv_def)
qed

lemma registry_inv_openSession:
  "registry_inv st \<Longrightarrow> registry_inv (fst (openSession st req outcome))"
  by (cases outcome) (simp_all add: openSession_def Let_def registry_inv_register)

lemma registry_inv_closeSession:
  "registry_inv st \<Longrightarrow> registry_inv (closeSession k st)"
  by (auto simp: closeSession_def registry_inv_def distinct_Map_delete set_Map_delete)

lemma routeMessage_state: "fst (routeMessage st sessionId outcome) = st"
  by (simp add: routeMessage_def split: option.split)

lemma registry_inv_step: "registry_inv st \<Longrightarrow> registry_inv (step st ev)"
  by (cases ev) (simp_all add: registry_inv_openSession registry_inv_closeSession routeMessage_state)

lemma reachable_registry_inv: "reachable st \<Longrightarrow> registry_inv st"
  by (induction rule: reachable.induct) (simp_all add: registry_inv_initial registry_inv_step)

lemma reachable_run: "reachable st \<Longrightarrow> reachable (run st evs)"
  unfolding run_def
  by (induction evs arbitrary: st) (simp_all add: reachable_step)

lemma forwarded_to_handlePostMessage:
  "forwarded_to (handlePostMessage transport outcome) = transport"
  by (simp add: handlePostMessage_def split: option.split post_outcome.split)

lemma forwarded_in_registry:
  "forwarded_to (snd (routeMessage st sessionId outcome)) = Some t \<Longrightarrow> t \<in> snd ` set (connections st)"
  by (auto simp: routeMessage_def first_connection_def forwarded_to_handlePostMessage
      Map_first_value_def Map_get_def Map_size_def
      split: option.splits if_splits list.splits dest!: map_of_SomeD intro: rev_image_eqI)

text \<open>
  Claim C1. In every state the server can reach, a message whose session identifier is
  registered is handed to the transport registered under it; a message without an
  identifier, or with one that is not registered, is handed to the first transport in
  the iteration order of the registry when there is one; and on an empty registry the
  answer is the status 400 with the error "No active connections" and no transport is
  handed anything.
\<close>

theorem routeMessage_policy:
  assumes "reachable st"
  shows "(\<forall>s t. sessionId = Some s \<and> Map_get s (connections st) = Some t \<longrightarrow>
            forwarded_to (snd (routeMessage st sessionId outcome)) = Some t)
       \<and> (\<forall>k t rest. (sessionId = None \<or> (\<exists>s. sessionId = Some s \<and> \<not> Map_has s (connections st)))
              \<and> connections st = (k, t) # rest \<longrightarrow>
            forwarded_to (snd (routeMessage st sessionId outcome)) = Some t)
       \<and> (connections st = [] \<longrightarrow>
            snd (routeMessage st sessionId outcome) =
              \<lparr>forwarded_to = None, reply = Some (Json_error 400 ''No active connections'')\<rparr>)"
proof (intro conjI allI impI)
  fix s t
  assume a: "sessionId = Some s \<and> Map_get s (connections st) = Some t"
  then have "(s, t) \<in> set (connections st)"
    by (auto simp: Map_get_def dest: map_of_SomeD)
  then have "s \<noteq> []"
    using reachable_registry_inv [OF assms] by (auto simp: registry_inv_def)
  then show "forwarded_to (snd (routeMessage st sessionId outcome)) = Some t"
    using a by (simp add: routeMessage_def Map_has_def Map_get_def forwarded_to_handlePostMessage)
next
  fix k t rest
  assume "(sessionId = None \<or> (\<exists>s. sessionId = Some s \<and> \<not> Map_has s (connections st)))
            \<and> connections st = (k, t) # rest"
  then show "forwarded_to (snd (routeMessage st sessionId outcome)) = Some t"
    by (auto simp: routeMessage_def first_connection_def Map_size_def Map_first_value_def
        forwarded_to_handlePostMessage)
next
  assume "connections st = []"
  then show "snd (routeMessage st sessionId outcome) =
      \<lparr>forwarded_to = None, reply = Some (Json_error 400 ''No active connections'')\<rparr>"
    by (simp add: routeMessage_def first_connection_def Map_size_def Map_has_def split: option.split)
qed

lemma two_sessions_eq:
  "two_sessions = \<lparr>connections = [(''a'', 0), (''b'', Suc 0)], next_transport = Suc (Suc 0)\<rparr>"
  by (simp add: two_sessions_def run_def initial_state_def openSession_def sessionId_of_def
      example_request_def)

lemma reachable_two_sessions: "reachable two_sessions"
  unfolding two_sessions_def by (rule reachable_run [OF reachable_init])

theorem routeMessage_policy_witness:
  "reachable two_sessions
   \<and> Map_get ''b'' (connections two_sessions) = Some 1
   \<and> forwarded_to (snd (routeMessage two_sessions (Some ''b'') Handled)) = Some 1
   \<and> \<not> Map_has ''zz'' (connections two_sessions)
   \<and> forwarded_to (snd (routeMessage two_sessions (Some ''zz'') Handled)) = Some 0
   \<and> forwarded_to (snd (routeMessage two_sessions None Handled)) = Some 0
   \<and> reachable initial_state
   \<and> snd (routeMessage initial_state (Some ''b'') Handled) =
        \<lparr>forwarded_to = None, reply = Some (Json_error 400 ''No active connections'')\<rparr>"
  using routeMessage_policy [OF reachable_two_sessions, of "Some ''b''" Handled]
    routeMessage_policy [OF reachable_two_sessions, of "Some ''zz''" Handled]
    routeMessage_policy [OF reachable_two_sessions, of None Handled]
    routeMessage_policy [OF reachable_init, of "Some ''b''" Handled]
    reachable_two_sessions reachable_init
  by (simp add: two_sessions_eq Map_get_def Map_has_def initial_state_def)

lemma Map_delete_not_has: "\<not> Map_has k (Map_delete k m)"
  by (auto simp: Map_has_iff set_Map_delete)

lemma gone_step: "gone t st \<Longrightarrow> gone t (step st ev)"
proof (cases ev)
  case (Open req outcome)
  assume g: "gone t st"
  then have inv: "registry_inv (fst (openSession st req outcome))"
    by (simp add: gone_def registry_inv_openSession)
  have "t \<notin> snd ` set (connections (fst (openSession st req outcome)))
        \<and> t < next_transport (fst (openSession st req outcome))"
    using g values_Map_set [of "sessionId_of req" "next_transport st" "connections st"]
    by (cases outcome) (auto simp: gone_def openSession_def Let_def)
  with inv Open show ?thesis by (simp add: gone_def)
next
  case (Close k)
  assume "gone t st"
  then show ?thesis using Close registry_inv_closeSession [of st k]
    by (auto simp: gone_def closeSession_def set_Map_delete)
next
  case (Post k outcome)
  assume "gone t st"
  then show ?thesis using Post by (simp add: routeMessage_state)
qed

lemma gone_run: "gone t st \<Longrightarrow> gone t (run st evs)"
  unfolding run_def by (induction evs arbitrary: st) (simp_all add: gone_step)

lemma gone_after_close:
  assumes "registry_inv st" and "Map_get k (connections st) = Some t"
  shows "gone t (closeSession k st)"
proof -
  have mem: "(k, t) \<in> set (connections st)"
    using assms(2) by (auto simp: Map_get_def dest: map_of_SomeD)
  have has: "Map_has k (connections st)"
    using assms(2) by (simp add: Map_has_def Map_get_def)
  have "t \<notin> snd ` set (Map_delete k (connections st))"
  proof
    assume "t \<in> snd ` set (Map_delete k (connections st))"
    then obtain k' where k': "(k', t) \<in> set (connections st)" "k' \<noteq> k"
      by (auto simp: set_Map_delete)
    have "distinct (map snd (connections st))"
      using assms(1) by (simp add: registry_inv_def)
    then have "inj_on snd (set (connections st))"
      by (simp add: distinct_map)
    then have "(k', t) = (k, t)"
      using mem k'(1) by (intro inj_onD [where f = snd and A = "set (connections st)"]) simp_all
    with k'(2) show False by simp
  qed
  moreover have "t < next_transport st"
    using assms(1) mem by (auto simp: registry_inv_def)
  ultimately show ?thesis
    using registry_inv_closeSession [OF assms(1), of k] has
    by (simp add: gone_def closeSession_def)
qed

text \<open>
  Claim C3. Once \<open>closeSession\<close> has removed the entry of a session, no message
  is handed to the transport that entry held, whatever events follow and whatever
  identifier the message carries; and when the entry was the only one, a message that
  follows the removal is answered with the status 400 and the error
  "No active connections".
\<close>

theorem closed_session_never_routed:
  assumes "reachable st" and "Map_get sessionId (connections st) = Some t"
  shows "forwarded_to (snd (routeMessage (run (closeSession sessionId st) evs) anyId outcome)) \<noteq> Some t
       \<and> (connections st = [(sessionId, t)] \<longrightarrow>
            snd (routeMessage (closeSession sessionId st) anyId outcome) =
              \<lparr>forwarded_to = None, reply = Some (Json_error 400 ''No active connections'')\<rparr>)"
proof
  have "gone t (run (closeSession sessionId st) evs)"
    using gone_run gone_after_close reachable_registry_inv assms by blast
  then show "forwarded_to (snd (routeMessage (run (closeSession sessionId st) evs) anyId outcome)) \<noteq> Some t"
    using forwarded_in_registry by (auto simp: gone_def)
next
  show "connections st = [(sessionId, t)] \<longrightarrow>
            snd (routeMessage (closeSession sessionId st) anyId outcome) =
              \<lparr>forwarded_to = None, reply = Some (Json_error 400 ''No active connections'')\<rparr>"
    by (simp add: closeSession_def Map_has_def Map_delete_def routeMessage_def
        first_connection_def Map_size_def split: option.split)
qed

lemma one_session_eq:
  "one_session = \<lparr>connections = [(''k3x9q-lq2z'', 0)], next_transport = Suc 0\<rparr>"
  by (simp add: one_session_def run_def initial_state_def openSession_def sessionId_of_def
      example_request_def)

lemma reachable_one_session: "reachable one_session"
  unfolding one_session_def by (rule reachable_run [OF reachable_init])

theorem closed_session_never_routed_witness:
  "reachable one_session
   \<and> Map_get ''k3x9q-lq2z'' (connections one_session) = Some 0
   \<and> connections one_session = [(''k3x9q-lq2z'', 0)]
   \<and> forwarded_to (snd (routeMessage
         (run (closeSession ''k3x9q-lq2z'' one_session) [Open (example_request (Some ''k3x9q-lq2z'')) Connected])
         (Some ''k3x9q-lq2z'') Handled)) \<noteq> Some 0
   \<and> snd (routeMessage (closeSession ''k3x9q-lq2z'' one_session) None Handled) =
        \<lparr>forwarded_to = None, reply = Some (Json_error 400 ''No active connections'')\<rparr>"
proof -
  have g: "Map_get ''k3x9q-lq2z'' (connections one_session) = Some 0"
    by (simp add: one_session_eq Map_get_def)
  show ?thesis
    using closed_session_never_routed [OF reachable_one_session g,
        of "[Open (example_request (Some ''k3x9q-lq2z'')) Connected]" "Some ''k3x9q-lq2z''" Handled]
      closed_session_never_routed [OF reachable_one_session g, of "[]" None Handled]
      reachable_one_session g
    by (simp add: one_session_eq)
qed

text \<open>
  Claim C9. \<open>closeSession\<close> removes the entry of the identifier when there is
  one and keeps every other entry, leaves the state as it is when there is none, and
  applied twice gives the state that one application gives.
\<close>

theorem closeSession_idempotent:
  "(Map_has sessionId (connections st) \<longrightarrow>
      \<not> Map_has sessionId (connections (closeSession sessionId st))
      \<and> (\<forall>k. k \<noteq> sessionId \<longrightarrow>
            Map_get k (connections (closeSession sessionId st)) = Map_get k (connections st)))
   \<and> (\<not> Map_has sessionId (connections st) \<longrightarrow> closeSession sessionId st = st)
   \<and> closeSession sessionId (closeSession sessionId st) = closeSession sessionId st"
proof -
  have a: "\<not> Map_has sessionId (Map_delete sessionId m)" for m :: "(string, nat) js_map"
    by (rule Map_delete_not_has)
  have b: "k \<noteq> sessionId \<Longrightarrow> Map_get k (Map_delete sessionId m) = Map_get k m"
    for k and m :: "(string, nat) js_map"
    by (induction m) (auto simp: Map_get_def Map_delete_def)
  show ?thesis
    using a b by (simp add: closeSession_def)
qed

theorem closeSession_idempotent_witness:
  "Map_has ''a'' (connections two_sessions)
   \<and> connections (closeSession ''a'' two_sessions) = [(''b'', 1)]
   \<and> \<not> Map_has ''zz'' (connections two_sessions)
   \<and> closeSession ''zz'' two_sessions = two_sessions
   \<and> closeSession ''a'' (closeSession ''a'' two_sessions) = closeSession ''a'' two_sessions"
  using closeSession_idempotent [of "''a''" two_sessions]
    closeSession_idempotent [of "''zz''" two_sessions]
  by (simp add: two_sessions_eq Map_has_def closeSession_def Map_delete_def)

lemma Map_get_Map_delete_other: "k' \<noteq> k \<Longrightarrow> Map_get k' (Map_delete k m) = Map_get k' m"
  by (induction m) (auto simp: Map_get_def Map_delete_def)

lemma Map_get_step_untouched:
  "\<not> touches k ev \<Longrightarrow> Map_get k (connections (step st ev)) = Map_get k (connections st)"
proof (cases ev)
  case (Open req outcome)
  assume "\<not> touches k ev"
  with Open have "k \<noteq> sessionId_of req" by auto
  then show ?thesis
    using Open by (cases outcome) (simp_all add: openSession_def Let_def Map_get_Map_set_other)
next
  case (Close k')
  assume "\<not> touches k ev"
  with Close show ?thesis
    by (simp add: closeSession_def Map_get_Map_delete_other)
next
  case (Post k' outcome)
  then show ?thesis by (simp add: routeMessage_state)
qed

lemma Map_get_run_untouched:
  "\<forall>ev \<in> set evs. \<not> touches k ev \<Longrightarrow>
     Map_get k (connections (run st evs)) = Map_get k (connections st)"
  unfolding run_def
  by (induction evs arbitrary: st) (simp_all add: Map_get_step_untouched)

lemma closeSession_not_has: "\<not> Map_has k (connections (closeSession k st))"
  by (simp add: closeSession_def Map_delete_not_has)

text \<open>
  Claim C10, as the code has it. Handling a message returns the state it was given, so
  the registry is the same after as before. A pair of an identifier and a transport
  appears only through the opening of a connection with that identifier. A pair
  disappears only through the close event of its identifier or through the opening of
  a connection with the same identifier, which replaces the transport registered under
  it. An identifier disappears from the registry only through its close event.
\<close>

theorem routeMessage_frame:
  "fst (routeMessage st sessionId outcome) = st
   \<and> connections (step st (Post sessionId outcome)) = connections st
   \<and> (p \<in> set (connections (step st ev)) \<and> p \<notin> set (connections st) \<longrightarrow>
         (\<exists>req out. ev = Open req out \<and> sessionId_of req = fst p))
   \<and> (p \<in> set (connections st) \<and> p \<notin> set (connections (step st ev)) \<longrightarrow>
         ev = Close (fst p) \<or> (\<exists>req out. ev = Open req out \<and> sessionId_of req = fst p))
   \<and> (Map_has k (connections st) \<and> \<not> Map_has k (connections (step st ev)) \<longrightarrow> ev = Close k)"
proof (intro conjI impI)
  show "fst (routeMessage st sessionId outcome) = st"
    by (rule routeMessage_state)
  show "connections (step st (Post sessionId outcome)) = connections st"
    by (simp add: routeMessage_state)
next
  assume a: "p \<in> set (connections (step st ev)) \<and> p \<notin> set (connections st)"
  show "\<exists>req out. ev = Open req out \<and> sessionId_of req = fst p"
  proof (cases ev)
    case (Open req out)
    have "set (connections (fst (openSession st req out)))
            \<subseteq> insert (sessionId_of req, next_transport st) (set (connections st))"
      using set_Map_set_subset [of "sessionId_of req" "next_transport st" "connections st"]
      by (cases out) (auto simp: openSession_def Let_def)
    with a Open have "p = (sessionId_of req, next_transport st)" by auto
    with Open show ?thesis by simp
  next
    case (Close k')
    with a show ?thesis by (auto simp: closeSession_def set_Map_delete split: if_splits)
  next
    case (Post k' out)
    with a show ?thesis by (simp add: routeMessage_state)
  qed
next
  assume a: "p \<in> set (connections st) \<and> p \<notin> set (connections (step st ev))"
  have kept: "q \<in> set m \<Longrightarrow> fst q \<noteq> k' \<Longrightarrow> q \<in> set (Map_set k' v m)"
    for q :: "string \<times> nat" and m k' v
    by (induction m) auto
  show "ev = Close (fst p) \<or> (\<exists>req out. ev = Open req out \<and> sessionId_of req = fst p)"
  proof (cases ev)
    case (Open req out)
    have "sessionId_of req = fst p"
    proof (rule ccontr)
      assume "sessionId_of req \<noteq> fst p"
      then have "p \<in> set (connections (fst (openSession st req out)))"
        using a kept [of p "connections st" "sessionId_of req" "next_transport st"]
        by (cases out) (auto simp: openSession_def Let_def)
      with a Open show False by simp
    qed
    with Open show ?thesis by simp
  next
    case (Close k')
    with a show ?thesis by (auto simp: closeSession_def set_Map_delete split: if_splits)
  next
    case (Post k' out)
    with a show ?thesis by (simp add: routeMessage_state)
  qed
next
  assume a: "Map_has k (connections st) \<and> \<not> Map_has k (connections (step st ev))"
  show "ev = Close k"
  proof (cases ev)
    case (Open req out)
    have "fst ` set (connections st) \<subseteq> fst ` set (connections (fst (openSession st req out)))"
      by (cases out) (auto simp: openSession_def Let_def keys_Map_set)
    with a Open show ?thesis by (auto simp: Map_has_iff)
  next
    case (Close k')
    with a show ?thesis
      by (auto simp: closeSession_def Map_has_iff set_Map_delete split: if_splits)
  next
    case (Post k' out)
    with a show ?thesis by (simp add: routeMessage_state)
  qed
qed

theorem routeMessage_frame_witness:
  "(''c'', 2) \<in> set (connections (step two_sessions (Open (example_request (Some ''c'')) Connected)))
   \<and> (''c'', 2) \<notin> set (connections two_sessions)
   \<and> (''a'', 0) \<in> set (connections two_sessions)
   \<and> (''a'', 0) \<notin> set (connections (step two_sessions (Close ''a'')))
   \<and> Map_has ''a'' (connections two_sessions)
   \<and> \<not> Map_has ''a'' (connections (step two_sessions (Close ''a'')))
   \<and> fst (routeMessage two_sessions (Some ''a'') Handled) = two_sessions"
  using routeMessage_frame [of two_sessions "Some ''a''" Handled "(''c'', 2)"
        "Open (example_request (Some ''c'')) Connected" "''a''"]
    routeMessage_frame [of two_sessions "Some ''a''" Handled "(''a'', 0)" "Close ''a''" "''a''"]
  by (simp add: two_sessions_eq Map_has_def closeSession_def Map_delete_def openSession_def
      sessionId_of_def example_request_def)

text \<open>
  The claim as it was stated fails on the pairs: opening a connection with an identifier
  that is registered removes the pair that was there, and no close event took place.
\<close>

theorem open_replaces_pair_counterexample:
  "(''a'', 0) \<in> set (connections two_sessions)
   \<and> (''a'', 0) \<notin> set (connections (step two_sessions (Open (example_request (Some ''a'')) Connected)))
   \<and> connections (step two_sessions (Open (example_request (Some ''a'')) Connected))
        = [(''a'', 2), (''b'', 1)]"
  by (simp add: two_sessions_eq openSession_def sessionId_of_def example_request_def)

text \<open>
  Claim C2, as the code has it. When the constructor of the transport throws, the state
  is returned unchanged. When attaching the server to the transport throws, the entry
  that was stored before the attempt stays: the registry differs from the one before at
  the identifier of the session only, which is registered with the new transport; the
  entry is still there after every run of events that has neither a close event of the
  identifier nor another opening with it; and the close event of the identifier removes
  it. In both cases the answer is the status 500 with the message of the error when the
  headers were not sent, and nothing when they were.
\<close>

theorem openSession_failure:
  "openSession st req (ConstructorThrows e headersSent) = (st, sse_failure_reply e headersSent)
   \<and> Map_get (sessionId_of req)
        (connections (fst (openSession st req (ConnectThrows e headersSent)))) = Some (next_transport st)
   \<and> (\<forall>k. k \<noteq> sessionId_of req \<longrightarrow>
          Map_get k (connections (fst (openSession st req (ConnectThrows e headersSent))))
            = Map_get k (connections st))
   \<and> ((\<forall>ev \<in> set evs. \<not> touches (sessionId_of req) ev) \<longrightarrow>
          Map_get (sessionId_of req)
            (connections (run (fst (openSession st req (ConnectThrows e headersSent))) evs))
            = Some (next_transport st))
   \<and> \<not> Map_has (sessionId_of req)
        (connections (closeSession (sessionId_of req)
           (run (fst (openSession st req (ConnectThrows e headersSent))) evs)))
   \<and> snd (openSession st req (ConnectThrows e headersSent)) = sse_failure_reply e headersSent
   \<and> sse_failure_reply e False = Some (End 500 (''Server error: '' @ message_or e ''Unknown error''))
   \<and> sse_failure_reply e True = None"
proof -
  let ?st' = "fst (openSession st req (ConnectThrows e headersSent))"
  have c: "connections ?st' = Map_set (sessionId_of req) (next_transport st) (connections st)"
    by (simp add: openSession_def Let_def)
  have g: "Map_get (sessionId_of req) (connections ?st') = Some (next_transport st)"
    by (simp add: c Map_get_Map_set)
  have r: "(\<forall>ev \<in> set evs. \<not> touches (sessionId_of req) ev) \<longrightarrow>
          Map_get (sessionId_of req) (connections (run ?st' evs)) = Some (next_transport st)"
    using g by (simp add: Map_get_run_untouched)
  have o: "\<forall>k. k \<noteq> sessionId_of req \<longrightarrow> Map_get k (connections ?st') = Map_get k (connections st)"
    by (simp add: c Map_get_Map_set_other)
  have rest: "openSession st req (ConstructorThrows e headersSent) = (st, sse_failure_reply e headersSent)
      \<and> snd (openSession st req (ConnectThrows e headersSent)) = sse_failure_reply e headersSent
      \<and> sse_failure_reply e False = Some (End 500 (''Server error: '' @ message_or e ''Unknown error''))
      \<and> sse_failure_reply e True = None"
    by (simp add: openSession_def Let_def sse_failure_reply_def)
  show ?thesis
    using g o r rest closeSession_not_has by blast
qed

theorem openSession_failure_witness:
  "\<not> touches ''a'' (Open (example_request (Some ''c'')) Connected)
   \<and> \<not> touches ''a'' (Close ''b'')
   \<and> \<not> touches ''a'' (Post None Handled)
   \<and> Map_get ''a'' (connections (run
        (fst (openSession two_sessions (example_request (Some ''a''))
           (ConnectThrows (JsError ''connect failed'') True)))
        [Open (example_request (Some ''c'')) Connected, Close ''b'', Post None Handled])) = Some 2
   \<and> Map_get ''b'' (connections (fst (openSession two_sessions (example_request (Some ''a''))
           (ConnectThrows (JsError ''connect failed'') True)))) = Some 1"
proof -
  have s: "sessionId_of (example_request (Some ''a'')) = ''a''"
    by (simp add: sessionId_of_def example_request_def)
  have n: "next_transport two_sessions = 2"
    by (simp add: two_sessions_eq)
  have t: "\<forall>ev \<in> set [Open (example_request (Some ''c'')) Connected, Close ''b'', Post None Handled].
       \<not> touches ''a'' ev"
    by (simp add: sessionId_of_def example_request_def)
  have b: "Map_get ''b'' (connections two_sessions) = Some 1"
    by (simp add: two_sessions_eq Map_get_def)
  show ?thesis
    using openSession_failure [of two_sessions "example_request (Some ''a'')"
        "JsError ''connect failed''" True
        "[Open (example_request (Some ''c'')) Connected, Close ''b'', Post None Handled]"] t b
    by (simp add: s n)
qed

text \<open>
  The claim as it was stated fails: after an attach that throws on the empty registry,
  the session is registered and the registry has changed.
\<close>

theorem openSession_failed_connect_counterexample:
  "Map_has ''s1''
     (connections (fst (openSession initial_state (example_request (Some ''s1''))
        (ConnectThrows (JsError ''connect failed'') False))))
   \<and> connections (fst (openSession initial_state (example_request (Some ''s1''))
        (ConnectThrows (JsError ''connect failed'') False))) \<noteq> connections initial_state"
  by (simp add: openSession_def sessionId_of_def example_request_def initial_state_def Map_has_def)

section \<open>Properties of the tool handlers\<close>

lemma take5_count_suffix:
  "take 5 (xs @ '' count:20'') = ''type:'' \<longleftrightarrow> take 5 xs = ''type:''"
proof (cases "5 \<le> length xs")
  case True
  then show ?thesis by simp
next
  case False
  then have l: "length xs < 5" by simp
  have "take 5 (xs @ '' count:20'') ! length xs = CHR '' ''"
    using l by (simp add: nth_append)
  moreover have "''type:'' ! n \<noteq> CHR '' ''" if "n < 5" for n
  proof -
    from that have "n = 0 \<or> n = 1 \<or> n = 2 \<or> n = 3 \<or> n = 4" by arith
    then show ?thesis by auto
  qed
  ultimately have "take 5 (xs @ '' count:20'') \<noteq> ''type:''"
    using l by metis
  moreover have "take 5 xs \<noteq> ''type:''"
  proof
    assume "take 5 xs = ''type:''"
    then have "length (take 5 xs) = 5" by simp
    with l show False by simp
  qed
  ultimately show ?thesis by simp
qed

lemma occurrences_count_suffix:
  "occurrences (q @ '' count:20'') ''type:'' = occurrences q ''type:''"
proof (induction q)
  case Nil
  show ?case by simp
next
  case (Cons c cs)
  show ?case
    using Cons take5_count_suffix [of "c # cs"] by (simp add: eval_nat_numeral)
qed

text \<open>
  Claim C8. When the query given to search-code contains \<open>type:\<close>, the query that
  is built has as many occurrences of \<open>type:\<close> as the query given: no second
  clause is added.
\<close>

theorem search_code_keeps_type:
  assumes "String_includes query ''type:''"
  shows "occurrences (search_code_finalQuery query type) ''type:'' = occurrences query ''type:''"
  using assms by (simp add: search_code_finalQuery_def Let_def occurrences_count_suffix)

theorem search_code_keeps_type_witness:
  "String_includes ''type:commit fix'' ''type:''
   \<and> search_code_finalQuery ''type:commit fix'' File = ''type:commit fix count:20''
   \<and> occurrences (search_code_finalQuery ''type:commit fix'' File) ''type:'' = 1"
  using search_code_keeps_type [of "''type:commit fix''" File]
  by (simp add: search_code_finalQuery_def)

text \<open>
  Claim C7. With a URL and a token that pass the guard, search-code called with the
  query \<open>foo\<close> and the type \<open>file\<close> builds the query
  \<open>foo type:file count:20\<close>, and the one request it sends carries that query.
\<close>

theorem search_code_foo_file:
  assumes "truthy (js_or (sgUrl m) (e ''SOURCEGRAPH_URL''))"
    and "truthy (js_or (sgToken m) (e ''SOURCEGRAPH_TOKEN''))"
  shows "search_code_finalQuery ''foo'' File = ''foo type:file count:20''
       \<and> fst (search_code w m e ''foo'' File) =
           [\<lparr>address = to_string (js_or (sgUrl m) (e ''SOURCEGRAPH_URL'')) @ ''/.api/graphql'',
             token = to_string (js_or (sgToken m) (e ''SOURCEGRAPH_TOKEN'')),
             document = FileSearch,
             variables_query = Some ''foo type:file count:20''\<rparr>]"
  using assms
  by (simp add: search_code_def effective_credentials_def Let_def search_and_format_def
      graphql_request_def search_code_finalQuery_def search_document_def type_name_def)

theorem search_code_foo_file_witness:
  "truthy (js_or (sgUrl (load_module example_env)) (example_env ''SOURCEGRAPH_URL''))
   \<and> truthy (js_or (sgToken (load_module example_env)) (example_env ''SOURCEGRAPH_TOKEN''))
   \<and> fst (search_code example_world (load_module example_env) example_env ''foo'' File) =
        [\<lparr>address = ''https://sourcegraph.example.com/.api/graphql'', token = ''sgp_token'',
          document = FileSearch, variables_query = Some ''foo type:file count:20''\<rparr>]"
proof -
  have u: "truthy (js_or (sgUrl (load_module example_env)) (example_env ''SOURCEGRAPH_URL''))"
    by (simp add: load_module_def example_env_def js_or_def truthy_def)
  have t: "truthy (js_or (sgToken (load_module example_env)) (example_env ''SOURCEGRAPH_TOKEN''))"
    by (simp add: load_module_def example_env_def js_or_def truthy_def)
  have v1: "to_string (js_or (sgUrl (load_module example_env)) (example_env ''SOURCEGRAPH_URL''))
      = ''https://sourcegraph.example.com''"
    by (simp add: load_module_def example_env_def js_or_def truthy_def to_string_def)
  have v2: "to_string (js_or (sgToken (load_module example_env)) (example_env ''SOURCEGRAPH_TOKEN''))
      = ''sgp_token''"
    by (simp add: load_module_def example_env_def js_or_def truthy_def to_string_def)
  show ?thesis
    using search_code_foo_file [OF u t, of example_world] u t
    by (simp add: v1 v2)
qed

lemma no_effective_credentials:
  assumes "(\<not> truthy (sgUrl m) \<and> e ''SOURCEGRAPH_URL'' = None)
         \<or> (\<not> truthy (sgToken m) \<and> e ''SOURCEGRAPH_TOKEN'' = None)"
  shows "effective_credentials m e = None"
  using assms by (auto simp: effective_credentials_def js_or_def truthy_def Let_def)

text \<open>
  Claim C5, as the code has it. The guard takes the constant that the module read from
  the variable when it was loaded, and the variable itself only when the constant is
  unset or empty. When \<open>SOURCEGRAPH_URL\<close> or \<open>SOURCEGRAPH_TOKEN\<close> is unset at the
  time of the call and the constant read from the same variable is unset or empty too,
  each of search-code, search-commits, search-diffs, search-github-repos and
  natural-search answers with the configuration error, flagged \<open>isError: true\<close>, and
  sends no request.
\<close>

theorem search_tools_without_credentials:
  assumes "(\<not> truthy (sgUrl m) \<and> e ''SOURCEGRAPH_URL'' = None)
         \<or> (\<not> truthy (sgToken m) \<and> e ''SOURCEGRAPH_TOKEN'' = None)"
  shows "search_code w m e query type =
           ([], Inr \<lparr>content = [TextBlock config_error_text], isError = Some True\<rparr>)
       \<and> search_commits w m e author message after =
           ([], Inr \<lparr>content = [TextBlock config_error_text], isError = Some True\<rparr>)
       \<and> search_diffs w m e optional_query author after =
           ([], Inr \<lparr>content = [TextBlock config_error_text], isError = Some True\<rparr>)
       \<and> search_github_repos w m e query repos type =
           ([], Inr \<lparr>content = [TextBlock config_error_text], isError = Some True\<rparr>)
       \<and> natural_search w m e query max_results =
           ([], Inr \<lparr>content = [TextBlock config_error_text], isError = Some True\<rparr>)"
  using no_effective_credentials [OF assms]
  by (simp add: search_code_def search_commits_def search_diffs_def search_github_repos_def
      natural_search_def error_response_def)

theorem search_tools_without_credentials_witness:
  "\<not> truthy (sgUrl (load_module token_only_env))
   \<and> token_only_env ''SOURCEGRAPH_URL'' = None
   \<and> search_code example_world (load_module token_only_env) token_only_env ''foo'' File =
        ([], Inr \<lparr>content = [TextBlock config_error_text], isError = Some True\<rparr>)
   \<and> natural_search example_world (load_module token_only_env) token_only_env ''find foo''
        (None :: nat option) =
        ([], Inr \<lparr>content = [TextBlock config_error_text], isError = Some True\<rparr>)"
proof -
  have n: "token_only_env ''SOURCEGRAPH_URL'' = None"
    by (simp add: token_only_env_def)
  have u: "\<not> truthy (sgUrl (load_module token_only_env))"
    by (simp add: load_module_def token_only_env_def truthy_def)
  have h: "(\<not> truthy (sgUrl (load_module token_only_env)) \<and> token_only_env ''SOURCEGRAPH_URL'' = None)
         \<or> (\<not> truthy (sgToken (load_module token_only_env))
             \<and> token_only_env ''SOURCEGRAPH_TOKEN'' = None)"
    using n u by simp
  show ?thesis
    using search_tools_without_credentials [OF h, of example_world "''foo''" File _ _ _ _ _
        "None :: nat option"]
      search_tools_without_credentials [OF h, of example_world "''find foo''" File _ _ _ _ _
        "None :: nat option"]
      n u
    by simp
qed

text \<open>
  The claim as it was stated fails: the module was loaded with both variables set, at
  the time of the call both are unset, and search-code sends its request and answers
  with the error of the request, not with the configuration error.
\<close>

theorem unset_at_call_counterexample:
  "empty_env ''SOURCEGRAPH_URL'' = None
   \<and> fst (search_code example_world (load_module example_env) empty_env ''foo'' File) =
        [\<lparr>address = ''https://sourcegraph.example.com/.api/graphql'', token = ''sgp_token'',
          document = FileSearch, variables_query = Some ''foo type:file count:20''\<rparr>]
   \<and> snd (search_code example_world (load_module example_env) empty_env ''foo'' File) =
        Inr \<lparr>content = [TextBlock ''Error searching Sourcegraph: connect ECONNREFUSED''],
             isError = Some True\<rparr>"
proof -
  have c: "effective_credentials (load_module example_env) empty_env
             = Some (''https://sourcegraph.example.com'', ''sgp_token'')"
    by (simp add: effective_credentials_def load_module_def example_env_def empty_env_def
        js_or_def truthy_def to_string_def)
  have n: "empty_env ''SOURCEGRAPH_URL'' = None"
    by (simp add: empty_env_def)
  show ?thesis
    by (simp add: n search_code_def c search_and_format_def graphql_request_def
        search_code_finalQuery_def search_document_def type_name_def executeSourcegraphSearch_def
        example_world_def catch_as_response_def error_response_def message_or_def)
qed

lemma structured_error_response: "structured (error_response t)"
  by (simp add: structured_def error_response_def)

lemma structured_text_response: "structured (text_response t)"
  by (simp add: structured_def text_response_def)

lemma catch_as_response_structured:
  assumes "\<And>r. x = Inr r \<Longrightarrow> structured r"
  shows "\<exists>r. catch_as_response prefix x = Inr r \<and> structured r"
  using assms by (cases x) (simp_all add: catch_as_response_def structured_error_response)

lemma format_response_structured:
  "format_response w response query type = Inr r \<Longrightarrow> structured r"
  by (auto simp: format_response_def structured_error_response structured_text_response
      split: sum.splits option.splits)

lemma search_and_format_structured:
  "\<exists>r. snd (search_and_format w prefix finalQuery graphqlQuery type cfg) = Inr r \<and> structured r"
  unfolding search_and_format_def snd_conv
  by (rule catch_as_response_structured)
     (auto split: sum.splits dest: format_response_structured)

lemma search_with_header_structured:
  "\<exists>r. snd (search_with_header w prefix searchQuery header cfg) = Inr r \<and> structured r"
  unfolding search_with_header_def snd_conv
  by (rule catch_as_response_structured)
     (auto simp: structured_error_response structured_text_response split: sum.splits option.splits)

lemma search_with_properties_structured:
  "\<exists>r. snd (search_with_properties w p cfg) = Inr r \<and> structured r"
proof -
  have a: "\<exists>r. catch_as_response prefix
             (case axios_post w rq of Inl e \<Rightarrow> Inl e
              | Inr response \<Rightarrow> format_response w response q t) = Inr r \<and> structured r"
    for prefix rq q t
    by (rule catch_as_response_structured)
       (auto split: sum.splits dest: format_response_structured)
  have b: "\<exists>r. catch_as_response prefix (Inl err) = Inr r \<and> structured r" for prefix err
    by (rule catch_as_response_structured) simp
  show ?thesis
    unfolding search_with_properties_def Let_def
    by (simp only: a b snd_conv if_split [where P = "\<lambda>x. \<exists>r. snd x = Inr r \<and> structured r"])
       simp
qed

lemma test_connection_structured:
  "\<exists>r. snd (test_connection w e) = Inr r \<and> structured r"
proof -
  have a: "\<exists>r. catch_as_response prefix x = Inr r \<and> structured r"
    if "\<And>r. x = Inr r \<Longrightarrow> structured r" for prefix x
    using that by (rule catch_as_response_structured)
  show ?thesis
    unfolding test_connection_def Let_def
    by (auto intro!: a simp: structured_error_response structured_text_response
        split: sum.splits option.splits)
qed

lemma test_nl_search_structured:
  "\<exists>r. snd (test_nl_search query) = Inr r \<and> structured r"
  unfolding test_nl_search_def snd_conv
  by (rule catch_as_response_structured)
     (auto simp: test_with_properties_def Let_def structured_text_response split: option.splits)

lemma as_text_structured: "as_text x = Inr r \<Longrightarrow> structured r"
  by (auto simp: as_text_def structured_text_response split: sum.splits)

lemma query_and_render_structured:
  assumes "\<And>response r. render response = Inr r \<Longrightarrow> structured r"
  shows "\<exists>r. snd (query_and_render w iw e prefix graphqlQuery variables cfg render) = Inr r
             \<and> structured r"
  unfolding query_and_render_def Let_def snd_conv
  by (rule catch_as_response_structured)
     (auto simp: structured_error_response split: sum.splits option.splits dest: assms)

lemma guarded_structured:
  assumes "\<And>cfg. \<exists>r. snd (body cfg) = Inr r \<and> structured r"
  shows "\<exists>r. snd (case effective_credentials m e of
                    None \<Rightarrow> ([], Inr (error_response config_error_text))
                  | Some cfg \<Rightarrow> body cfg) = Inr r \<and> structured r"
  using assms by (cases "effective_credentials m e") (simp_all add: structured_error_response)

lemma search_tools_structured:
  "\<exists>r. snd (search_code w m e query type) = Inr r \<and> structured r"
  "\<exists>r. snd (search_commits w m e author message after) = Inr r \<and> structured r"
  "\<exists>r. snd (search_diffs w m e optional_query author after) = Inr r \<and> structured r"
  "\<exists>r. snd (search_github_repos w m e query repos type) = Inr r \<and> structured r"
  "\<exists>r. snd (natural_search w m e query max_results) = Inr r \<and> structured r"
  "\<exists>r. snd (natural_search_debug w m e query max_results) = Inr r \<and> structured r"
  "\<exists>r. snd (search_exploits w m e cveId) = Inr r \<and> structured r"
  "\<exists>r. snd (find_vendor_advisory w m e vendor product) = Inr r \<and> structured r"
  unfolding search_code_def search_commits_def search_diffs_def search_github_repos_def
    natural_search_def natural_search_debug_def naturalLanguageSearch_def search_exploits_def
    find_vendor_advisory_def Let_def
  by (rule guarded_structured,
      rule search_and_format_structured search_with_properties_structured
        search_with_header_structured)+

lemma rendered_structured:
  "as_text x = Inr r \<Longrightarrow> structured r"
  "(case v of None \<Rightarrow> Inr (text_response t) | Some d \<Rightarrow> as_text (f d)) = Inr r \<Longrightarrow> structured r"
  "(case v of None \<Rightarrow> Inr (text_response t)
    | Some d \<Rightarrow> (case g d of Inl err \<Rightarrow> Inl err | Inr u \<Rightarrow> Inr (text_response (h u)))) = Inr r
     \<Longrightarrow> structured r"
  by (auto simp: structured_text_response split: option.splits sum.splits dest: as_text_structured)

lemma get_hover_documentation_structured:
  "\<exists>r. snd (get_hover_documentation w iw m e repository path line character) = Inr r \<and> structured r"
  unfolding get_hover_documentation_def Let_def
  by (rule guarded_structured, rule query_and_render_structured, erule rendered_structured)

lemma get_document_symbols_structured:
  "\<exists>r. snd (get_document_symbols w iw m e repository path) = Inr r \<and> structured r"
  unfolding get_document_symbols_def Let_def
  by (rule guarded_structured, rule query_and_render_structured, erule rendered_structured)

lemma get_file_content_structured:
  "\<exists>r. snd (get_file_content w iw m e repository path revision) = Inr r \<and> structured r"
  unfolding get_file_content_def Let_def
  by (rule guarded_structured, rule query_and_render_structured, erule rendered_structured)

lemma get_file_blame_structured:
  "\<exists>r. snd (get_file_blame w iw m e repository path startLine endLine) = Inr r \<and> structured r"
  unfolding get_file_blame_def Let_def
  by (rule guarded_structured, rule query_and_render_structured, erule rendered_structured)

lemma lookup_package_vulnerability_structured:
  "\<exists>r. snd (lookup_package_vulnerability w iw m e packageName version) = Inr r \<and> structured r"
  unfolding lookup_package_vulnerability_def Let_def
  by (rule guarded_structured, rule query_and_render_structured, erule rendered_structured)

lemma get_definition_structured:
  "\<exists>r. snd (get_definition w iw m e repository path line character) = Inr r \<and> structured r"
  unfolding get_definition_def Let_def
  by (rule guarded_structured, rule query_and_render_structured, erule rendered_structured)

lemma find_references_structured:
  "\<exists>r. snd (find_references w iw m e repository path line character limit) = Inr r \<and> structured r"
  unfolding find_references_def Let_def
  by (rule guarded_structured, rule query_and_render_structured, erule rendered_structured)

lemma find_implementations_structured:
  "\<exists>r. snd (find_implementations w iw m e repository path line character limit) = Inr r \<and> structured r"
  unfolding find_implementations_def Let_def
  by (rule guarded_structured, rule query_and_render_structured, erule rendered_structured)

lemma lookup_cve_structured:
  "\<exists>r. snd (lookup_cve w iw m e cveId packageName repository) = Inr r \<and> structured r"
proof -
  have q: "\<exists>r. snd (query_and_render w iw e prefix CVELookupQuery variables cfg
                   (\<lambda>response. as_text (formatCVELookupResults iw (data_of iw response) params)))
                = Inr r \<and> structured r" for prefix variables cfg params
    by (rule query_and_render_structured) (rule as_text_structured)
  show ?thesis
    unfolding lookup_cve_def
    by (rule guarded_structured) (simp add: q structured_error_response)
qed

text \<open>
  Claim C4. Whatever the arguments, the configuration and the behaviour of the outside
  (a request that is refused, a body with errors, a body or results of an unexpected
  shape, a formatter that throws), every tool registered by the compiled server, by
  mcp-server.ts, by test-tools.ts and by mcp-server-debug.ts resolves to a structured
  response and lets no error escape.
\<close>

theorem tool_handlers_total:
  "\<exists>r. snd (call_tool w iw m e c) = Inr r \<and> structured r"
proof (cases c)
  case (Call_echo message)
  then show ?thesis by (simp add: of_search_def echo_def structured_text_response)
next
  case (Call_search_code query type)
  then show ?thesis by (simp add: of_search_def search_tools_structured)
next
  case (Call_search_commits author message after)
  then show ?thesis by (simp add: of_search_def search_tools_structured)
next
  case (Call_search_diffs query author after)
  then show ?thesis by (simp add: of_search_def search_tools_structured)
next
  case (Call_search_github_repos query repos type)
  then show ?thesis by (simp add: of_search_def search_tools_structured)
next
  case (Call_natural_search query max_results)
  then show ?thesis by (simp add: of_search_def search_tools_structured)
next
  case (Call_natural_search_debug query max_results)
  then show ?thesis by (simp add: of_search_def search_tools_structured)
next
  case Call_debug
  then show ?thesis by (simp add: of_search_def debug_def structured_text_response)
next
  case Call_debug_source
  then show ?thesis by (simp add: of_search_def debug_def structured_text_response)
next
  case (Call_test_nl_search query)
  then show ?thesis by (simp add: of_search_def test_nl_search_structured)
next
  case Call_test_connection
  then show ?thesis by (simp add: of_search_def test_connection_structured)
next
  case Call_nl_search_help
  then show ?thesis by (simp add: of_search_def nl_search_help_def structured_text_response)
next
  case (Call_deep_code_researcher query)
  then show ?thesis by (simp add: of_search_def deep_code_researcher_def structured_text_response)
next
  case (Call_deep_code_researcher_source query language repo limit)
  then show ?thesis
    by (simp add: of_search_def deep_code_researcher_source_def deep_code_researcher_def
        structured_text_response)
next
  case (Call_get_hover_documentation repository path line character)
  then show ?thesis by (simp add: of_query_def get_hover_documentation_structured get_document_symbols_structured
        get_file_content_structured get_file_blame_structured lookup_package_vulnerability_structured
        get_definition_structured find_references_structured find_implementations_structured)
next
  case (Call_get_document_symbols repository path)
  then show ?thesis by (simp add: of_query_def get_hover_documentation_structured get_document_symbols_structured
        get_file_content_structured get_file_blame_structured lookup_package_vulnerability_structured
        get_definition_structured find_references_structured find_implementations_structured)
next
  case (Call_get_file_content repository path revision)
  then show ?thesis by (simp add: of_query_def get_hover_documentation_structured get_document_symbols_structured
        get_file_content_structured get_file_blame_structured lookup_package_vulnerability_structured
        get_definition_structured find_references_structured find_implementations_structured)
next
  case (Call_get_file_blame repository path startLine endLine)
  then show ?thesis by (simp add: of_query_def get_hover_documentation_structured get_document_symbols_structured
        get_file_content_structured get_file_blame_structured lookup_package_vulnerability_structured
        get_definition_structured find_references_structured find_implementations_structured)
next
  case (Call_lookup_cve cveId packageName repository)
  then show ?thesis by (simp add: of_query_def lookup_cve_structured)
next
  case (Call_lookup_package_vulnerability packageName version)
  then show ?thesis by (simp add: of_query_def get_hover_documentation_structured get_document_symbols_structured
        get_file_content_structured get_file_blame_structured lookup_package_vulnerability_structured
        get_definition_structured find_references_structured find_implementations_structured)
next
  case (Call_search_exploits cveId)
  then show ?thesis by (simp add: of_search_def search_tools_structured)
next
  case (Call_find_vendor_advisory vendor product)
  then show ?thesis by (simp add: of_search_def search_tools_structured)
next
  case (Call_get_definition repository path line character)
  then show ?thesis by (simp add: of_query_def get_hover_documentation_structured get_document_symbols_structured
        get_file_content_structured get_file_blame_structured lookup_package_vulnerability_structured
        get_definition_structured find_references_structured find_implementations_structured)
next
  case (Call_find_references repository path line character limit)
  then show ?thesis by (simp add: of_query_def get_hover_documentation_structured get_document_symbols_structured
        get_file_content_structured get_file_blame_structured lookup_package_vulnerability_structured
        get_definition_structured find_references_structured find_implementations_structured)
next
  case (Call_find_implementations repository path line character limit)
  then show ?thesis by (simp add: of_query_def get_hover_documentation_structured get_document_symbols_structured
        get_file_content_structured get_file_blame_structured lookup_package_vulnerability_structured
        get_definition_structured find_references_structured find_implementations_structured)
qed

section \<open>Properties of the translator\<close>












text \<open>
  The query that the rule-based analysis returns beside the type can be empty: from
  the input \<open>find\<close> nothing is left once the word is taken out.
\<close>

lemma parseWithRules_find:
  "parseWithRules ''find'' =
     \<lparr>r_type = ''file'', r_query = [], r_author = None, r_after = None, r_repos = [],
      r_originalQuery = ''find''\<rparr>"
  by code_simp

end
